theory Spec2Isabelle
  imports
    Complex_Main
    "HOL-Library.Char_ord"
    "HOL-Library.List_Lexorder"
    "HOL-Library.Product_Lexorder"
begin

section \<open>Tables of attack events\<close>

text \<open>
  The analyzer of \<^verbatim>\<open>ml_analyzer.py\<close> works on pandas tables. A cell is a missing value
  (NaN, None, NaT), a number, a text, or an instant. Instants are whole seconds since
  1970-01-01T00:00:00 without time zone; numbers are ideal reals standing for the floats of
  the source.
\<close>

datatype cell = Missing | Num real | Str string | Ts int

type_synonym series = "cell list"

text \<open>
  A table is the list of its columns, in order, each with its name. The number of rows is
  the length of the columns. \<^verbatim>\<open>pd.DataFrame()\<close> is the empty list.
\<close>

type_synonym dataframe = "(string \<times> series) list"

definition columns :: "dataframe \<Rightarrow> string list" where
  "columns df = map fst df"

definition nrows :: "dataframe \<Rightarrow> nat" where
  "nrows df = (case df of [] \<Rightarrow> 0 | (n, s) # rest \<Rightarrow> length s)"

definition df_empty :: "dataframe \<Rightarrow> bool" where
  \<comment> \<open>\<^verbatim>\<open>df.empty\<close>: no column or no row\<close>
  "df_empty df = (df = [] \<or> nrows df = 0)"

definition has_col :: "string \<Rightarrow> dataframe \<Rightarrow> bool" where
  \<comment> \<open>\<^verbatim>\<open>col in data.columns\<close>\<close>
  "has_col c df = (c \<in> set (columns df))"

definition get_col :: "dataframe \<Rightarrow> string \<Rightarrow> series" where
  \<comment> \<open>\<^verbatim>\<open>data[col]\<close>, read only where the source has checked that the column is there\<close>
  "get_col df c = (case map_of df c of None \<Rightarrow> [] | Some s \<Rightarrow> s)"

fun set_col :: "string \<Rightarrow> series \<Rightarrow> dataframe \<Rightarrow> dataframe" where
  \<comment> \<open>\<^verbatim>\<open>data[col] = values\<close>: an existing column keeps its place, a new one goes last\<close>
  "set_col c s [] = [(c, s)]"
| "set_col c s ((n, v) # df) = (if n = c then (c, s) # df else (n, v) # set_col c s df)"

definition select_cols :: "string list \<Rightarrow> dataframe \<Rightarrow> dataframe" where
  \<comment> \<open>\<^verbatim>\<open>data[feature_cols]\<close>\<close>
  "select_cols cs df = map (\<lambda>c. (c, get_col df c)) cs"

definition wf_df :: "dataframe \<Rightarrow> bool" where
  \<comment> \<open>what every pandas table built from a list of records satisfies\<close>
  "wf_df df = (distinct (columns df) \<and> list_all (\<lambda>(n, s). length s = nrows df) df)"

section \<open>Exceptions and results\<close>

text \<open>
  Exceptions are values. \<open>LibraryError\<close> is anything raised inside scikit-learn, joblib or
  the date parser, with its text.
\<close>

datatype exn = TypeError | ValueError | IndexError | OverflowError | OutOfBoundsDatetime
  | LibraryError string

text \<open>
  Every operation returns a dictionary with a \<^verbatim>\<open>success\<close> flag. \<open>Fail m\<close> is
  \<^verbatim>\<open>{'success': False, 'message': m}\<close> with a literal of the source, \<open>Caught e\<close> is
  the same dictionary built in an \<^verbatim>\<open>except Exception as e\<close> handler with
  \<^verbatim>\<open>str(e)\<close> as message, \<open>Success r\<close> is a dictionary with \<^verbatim>\<open>'success': True\<close>.
\<close>

datatype 'a result = Fail string | Caught exn | Success 'a

definition success :: "'a result \<Rightarrow> bool" where
  "success r = (case r of Success x \<Rightarrow> True | Fail m \<Rightarrow> False | Caught e \<Rightarrow> False)"

section \<open>Instants\<close>

definition day_seconds :: int where
  "day_seconds = 86400"

definition hour_of :: "int \<Rightarrow> int" where
  \<comment> \<open>\<^verbatim>\<open>.dt.hour\<close>\<close>
  "hour_of t = (t mod day_seconds) div 3600"

definition dayofweek_of :: "int \<Rightarrow> int" where
  \<comment> \<open>\<^verbatim>\<open>.dt.dayofweek\<close>, Monday is 0; day 0 of the epoch was a Thursday\<close>
  "dayofweek_of t = (t div day_seconds + 3) mod 7"

definition civil_of :: "int \<Rightarrow> int \<times> int \<times> int" where
  \<comment> \<open>year, month and day of the proleptic Gregorian calendar, for \<^verbatim>\<open>.dt.year\<close>,
      \<^verbatim>\<open>.dt.month\<close> and \<^verbatim>\<open>strftime\<close>\<close>
  "civil_of t =
     (let z = t div day_seconds + 719468;
          era = z div 146097;
          doe = z - era * 146097;
          yoe = (doe - doe div 1460 + doe div 36524 - doe div 146096) div 365;
          doy = doe - (365 * yoe + yoe div 4 - yoe div 100);
          mp = (5 * doy + 2) div 153;
          d = doy - (153 * mp + 2) div 5 + 1;
          m = (if mp < 10 then mp + 3 else mp - 9);
          y = yoe + era * 400 + (if m \<le> 2 then 1 else 0)
      in (y, m, d))"

definition year_of :: "int \<Rightarrow> int" where
  "year_of t = fst (civil_of t)"

definition month_of :: "int \<Rightarrow> int" where
  "month_of t = fst (snd (civil_of t))"

definition day_of :: "int \<Rightarrow> int" where
  "day_of t = snd (snd (civil_of t))"

definition digit :: "nat \<Rightarrow> char" where
  "digit n = ''0123456789'' ! (n mod 10)"

definition pad2 :: "int \<Rightarrow> string" where
  "pad2 n = [digit (nat n div 10), digit (nat n)]"

definition pad4 :: "int \<Rightarrow> string" where
  "pad4 n = [digit (nat n div 1000), digit (nat n div 100), digit (nat n div 10), digit (nat n)]"

definition strftime_date :: "int \<Rightarrow> string" where
  \<comment> \<open>\<^verbatim>\<open>strftime('%Y-%m-%d')\<close>, for the years 0 to 9999\<close>
  "strftime_date t = pad4 (year_of t) @ ''-'' @ pad2 (month_of t) @ ''-'' @ pad2 (day_of t)"

definition strftime_clock :: "int \<Rightarrow> string" where
  \<comment> \<open>\<^verbatim>\<open>strftime('%H:%M:%S')\<close>\<close>
  "strftime_clock t = pad2 (hour_of t) @ '':'' @ pad2 (t mod 3600 div 60) @ '':'' @ pad2 (t mod 60)"

definition strftime_compact :: "int \<Rightarrow> string" where
  \<comment> \<open>\<^verbatim>\<open>strftime("%Y%m%d_%H%M%S")\<close>\<close>
  "strftime_compact t =
     pad4 (year_of t) @ pad2 (month_of t) @ pad2 (day_of t) @ ''_'' @
     pad2 (hour_of t) @ pad2 (t mod 3600 div 60) @ pad2 (t mod 60)"

definition dt_field :: "(int \<Rightarrow> int) \<Rightarrow> series \<Rightarrow> series" where
  \<comment> \<open>a \<^verbatim>\<open>.dt\<close> accessor: NaT gives NaN\<close>
  "dt_field f s = map (\<lambda>c. case c of Ts t \<Rightarrow> Num (of_int (f t)) | Missing \<Rightarrow> Missing
                                     | Num x \<Rightarrow> Missing | Str x \<Rightarrow> Missing) s"

definition is_instant :: "cell \<Rightarrow> bool" where
  "is_instant c = (case c of Ts t \<Rightarrow> True | Missing \<Rightarrow> True | Num x \<Rightarrow> False | Str x \<Rightarrow> False)"

definition is_datetime64_dtype :: "series \<Rightarrow> bool" where
  "is_datetime64_dtype s = list_all is_instant s"

section \<open>Libraries and environment\<close>

text \<open>
  The fitted pipelines of scikit-learn are opaque handles. The library functions are
  parameters of the model; nothing is assumed about them unless a theorem says so.
\<close>

datatype pipeline = Pipeline nat

record prediction_report =
  accuracy :: real
  f1_score :: real
  feature_importances :: "(string \<times> real) list option"
  confusion_matrix :: "nat list list"
  classification_report :: "(string \<times> real list) list"

record libs =
  parse_datetimes :: "series \<Rightarrow> exn + (nat \<Rightarrow> int option)"
    \<comment> \<open>\<^verbatim>\<open>pd.to_datetime\<close> on a column that is not of instants: raises, or gives the
        instant of each row (None is NaT)\<close>
  dbscan_fit :: "string list \<Rightarrow> string list \<Rightarrow> dataframe \<Rightarrow> exn + pipeline \<times> (nat \<Rightarrow> int)"
    \<comment> \<open>scaling of the numerical columns, one-hot encoding of the categorical columns and
        \<^verbatim>\<open>DBSCAN(eps=0.5, min_samples=5)\<close>: raises, or gives the pipeline and the label of
        each row\<close>
  iforest_fit :: "nat \<Rightarrow> int option \<Rightarrow> real \<Rightarrow> string list \<Rightarrow> string list \<Rightarrow> dataframe
                  \<Rightarrow> exn + pipeline \<times> (exn + (nat \<Rightarrow> real \<times> int))"
    \<comment> \<open>the same preprocessing and \<^verbatim>\<open>IsolationForest(contamination, random_state)\<close>, from
        the state of the global random generator, the \<^verbatim>\<open>random_state\<close> argument and the
        contamination: the fit raises, or gives the pipeline; then \<^verbatim>\<open>decision_function\<close>
        and \<^verbatim>\<open>predict\<close> of the detector on the feature table raise, or give for each
        row the decision score and the prediction (-1 for an anomaly, 1 otherwise)\<close>
  forest_fit :: "nat \<Rightarrow> int option \<Rightarrow> string list \<Rightarrow> string list \<Rightarrow> dataframe \<Rightarrow> series
                  \<Rightarrow> exn + pipeline \<times> (exn + prediction_report)"
    \<comment> \<open>the 80/20 split and the fit of the random forest, both with
        \<^verbatim>\<open>random_state\<close>: raise, or give the pipeline; then the evaluation on the held-out
        rows raises, or gives the report\<close>
  fft_abs :: "nat list \<Rightarrow> nat \<Rightarrow> real"
    \<comment> \<open>\<^verbatim>\<open>abs(np.fft.fft(x)[i])\<close>\<close>
  joblib_dump :: "pipeline \<Rightarrow> string \<Rightarrow> exn option"
    \<comment> \<open>writes the file, or raises\<close>
  sort_positions :: "series \<Rightarrow> nat list \<Rightarrow> nat list"
    \<comment> \<open>\<^verbatim>\<open>sort_values\<close>: the given row positions in ascending order of their values in the
        column; the order of rows of equal value is the library's\<close>
  round_tenth :: "real \<Rightarrow> real"
    \<comment> \<open>\<^verbatim>\<open>round(x, 1)\<close> on floats\<close>

record env =
  now :: int
    \<comment> \<open>\<^verbatim>\<open>datetime.now()\<close>\<close>
  global_rng :: nat
    \<comment> \<open>the state of numpy's global random generator\<close>

section \<open>The analyzer\<close>

record analyzer =
  clustering_model :: "pipeline option"
  anomaly_model :: "pipeline option"
  prediction_model :: "pipeline option"
  features :: "string list"
  preprocess_calls :: nat
    \<comment> \<open>not in the source: counts the calls of \<open>preprocess_data\<close>\<close>

definition new_analyzer :: analyzer where
  \<comment> \<open>\<^verbatim>\<open>AttackPatternAnalyzer.__init__\<close>\<close>
  "new_analyzer = \<lparr>clustering_model = None, anomaly_model = None, prediction_model = None,
                    features = [], preprocess_calls = 0\<rparr>"

definition categorical_features :: "string list" where
  "categorical_features = [''attack_type'', ''source_country'', ''target_country'', ''data_source'']"

definition numerical_features :: "string list" where
  "numerical_features =
     [''source_latitude'', ''source_longitude'', ''target_latitude'', ''target_longitude'']"

subsection \<open>Feature engineering\<close>

definition to_datetime :: "libs \<Rightarrow> series \<Rightarrow> exn + series" where
  \<comment> \<open>\<^verbatim>\<open>pd.to_datetime(series)\<close>: a column of instants comes back as it is\<close>
  "to_datetime L s =
     (if is_datetime64_dtype s then Inr s
      else case parse_datetimes L s of
             Inl e \<Rightarrow> Inl e
           | Inr f \<Rightarrow> Inr (map (\<lambda>i. case f i of None \<Rightarrow> Missing | Some t \<Rightarrow> Ts t)
                               [0..<length s]))"

definition weekend_flag :: "cell \<Rightarrow> cell" where
  \<comment> \<open>\<^verbatim>\<open>lambda x: 1 if x >= 5 else 0\<close>; a comparison with NaN is false\<close>
  "weekend_flag c = (case c of Num x \<Rightarrow> (if x \<ge> 5 then Num 1 else Num 0)
                       | Missing \<Rightarrow> Num 0 | Str x \<Rightarrow> Num 0 | Ts t \<Rightarrow> Num 0)"

definition timestamp_features :: "dataframe \<Rightarrow> dataframe" where
  "timestamp_features data =
     (let ts = get_col data ''timestamp'';
          d1 = set_col ''hour_of_day'' (dt_field hour_of ts) data;
          d2 = set_col ''day_of_week'' (dt_field dayofweek_of ts) d1;
          d3 = set_col ''month'' (dt_field month_of ts) d2;
          d4 = set_col ''year'' (dt_field year_of ts) d3
      in set_col ''weekend'' (map weekend_flag (get_col d4 ''day_of_week'')) d4)"

definition numbers :: "series \<Rightarrow> real list" where
  "numbers s = concat (map (\<lambda>c. case c of Num x \<Rightarrow> [x] | Missing \<Rightarrow> [] | Str x \<Rightarrow> []
                                        | Ts t \<Rightarrow> []) s)"

definition is_numeric :: "cell \<Rightarrow> bool" where
  "is_numeric c = (case c of Num x \<Rightarrow> True | Missing \<Rightarrow> True | Str x \<Rightarrow> False | Ts t \<Rightarrow> False)"

definition median :: "series \<Rightarrow> exn + cell" where
  \<comment> \<open>\<^verbatim>\<open>Series.median()\<close>: missing values are skipped; the median of no value is NaN; a
      column holding texts has no median\<close>
  "median s =
     (if \<not> list_all is_numeric s then Inl TypeError
      else let xs = sort (numbers s); n = length xs
           in if n = 0 then Inr Missing
              else if odd n then Inr (Num (xs ! (n div 2)))
              else Inr (Num ((xs ! (n div 2 - 1) + xs ! (n div 2)) / 2)))"

definition fillna :: "cell \<Rightarrow> series \<Rightarrow> series" where
  \<comment> \<open>\<^verbatim>\<open>Series.fillna(v)\<close>; filling with NaN changes nothing\<close>
  "fillna v s = map (\<lambda>c. if c = Missing then v else c) s"

fun fill_numerical :: "string list \<Rightarrow> dataframe \<Rightarrow> exn + dataframe" where
  \<comment> \<open>the loop over \<^verbatim>\<open>self.numerical_features\<close>\<close>
  "fill_numerical [] data = Inr data"
| "fill_numerical (col # cols) data =
     (if has_col col data
      then case median (get_col data col) of
             Inl e \<Rightarrow> Inl e
           | Inr m \<Rightarrow> fill_numerical cols (set_col col (fillna m (get_col data col)) data)
      else fill_numerical cols data)"

fun fill_categorical :: "string list \<Rightarrow> dataframe \<Rightarrow> dataframe" where
  \<comment> \<open>the loop over \<^verbatim>\<open>self.categorical_features\<close>\<close>
  "fill_categorical [] data = data"
| "fill_categorical (col # cols) data =
     (if has_col col data
      then fill_categorical cols (set_col col (fillna (Str ''unknown'') (get_col data col)) data)
      else fill_categorical cols data)"

definition value_counts :: "series \<Rightarrow> cell \<Rightarrow> nat option" where
  \<comment> \<open>\<^verbatim>\<open>Series.value_counts()\<close> as a lookup table: missing values are not counted\<close>
  "value_counts s v = (if v = Missing \<or> v \<notin> set s then None else Some (count_list s v))"

definition map_series :: "(cell \<Rightarrow> nat option) \<Rightarrow> series \<Rightarrow> series" where
  \<comment> \<open>\<^verbatim>\<open>Series.map(counts)\<close>: a value that is not a key gives NaN\<close>
  "map_series m s = map (\<lambda>c. case m c of None \<Rightarrow> Missing | Some n \<Rightarrow> Num (of_nat n)) s"

definition frequency_feature :: "string \<Rightarrow> string \<Rightarrow> dataframe \<Rightarrow> dataframe" where
  "frequency_feature col new data =
     (if has_col col data
      then set_col new (map_series (value_counts (get_col data col)) (get_col data col)) data
      else data)"

definition convert_timestamp :: "libs \<Rightarrow> dataframe \<Rightarrow> exn + dataframe" where
  \<comment> \<open>\<^verbatim>\<open>if 'timestamp' in data.columns and not is_datetime64_dtype(data['timestamp'])\<close>\<close>
  "convert_timestamp L data =
     (if has_col ''timestamp'' data \<and> \<not> is_datetime64_dtype (get_col data ''timestamp'')
      then (case to_datetime L (get_col data ''timestamp'') of
              Inl e \<Rightarrow> Inl e
            | Inr ts \<Rightarrow> Inr (set_col ''timestamp'' ts data))
      else Inr data)"

definition engineer :: "libs \<Rightarrow> dataframe \<Rightarrow> exn + dataframe" where
  \<comment> \<open>the body of \<open>preprocess_data\<close> on a table that is not empty\<close>
  "engineer L df =
     (case convert_timestamp L df of
        Inl e \<Rightarrow> Inl e
      | Inr d0 \<Rightarrow>
          (case fill_numerical numerical_features
                  (if has_col ''timestamp'' d0 then timestamp_features d0 else d0) of
             Inl e \<Rightarrow> Inl e
           | Inr d1 \<Rightarrow>
               Inr (frequency_feature ''attack_type'' ''attack_type_frequency''
                     (frequency_feature ''source_country'' ''source_country_frequency''
                       (fill_categorical categorical_features d1)))))"

definition preprocess_data :: "libs \<Rightarrow> dataframe \<Rightarrow> analyzer \<Rightarrow> (exn + dataframe) \<times> analyzer" where
  "preprocess_data L df a =
     (let a1 = a\<lparr>preprocess_calls := Suc (preprocess_calls a)\<rparr>
      in if df_empty df then (Inr [], a1)
         else case engineer L df of
                Inl e \<Rightarrow> (Inl e, a1)
              | Inr data \<Rightarrow> (Inr data, a1\<lparr>features := columns data\<rparr>))"

subsection \<open>Column selection shared by the fits\<close>

definition feature_cols_of :: "string list \<Rightarrow> dataframe \<Rightarrow> string list" where
  \<comment> \<open>\<^verbatim>\<open>[col for col in data.columns if col not in excluded]\<close>\<close>
  "feature_cols_of excluded data = filter (\<lambda>c. c \<notin> set excluded) (columns data)"

definition categorical_cols_of :: "string list \<Rightarrow> string list" where
  \<comment> \<open>\<^verbatim>\<open>[col for col in self.categorical_features if col in feature_cols]\<close>\<close>
  "categorical_cols_of feature_cols = filter (\<lambda>c. c \<in> set feature_cols) categorical_features"

definition numerical_cols_of :: "string list \<Rightarrow> dataframe \<Rightarrow> string list" where
  \<comment> \<open>\<^verbatim>\<open>[col for col in data.columns if col not in categorical_cols and col in feature_cols]\<close>\<close>
  "numerical_cols_of feature_cols data =
     filter (\<lambda>c. c \<notin> set (categorical_cols_of feature_cols) \<and> c \<in> set feature_cols) (columns data)"

definition model_path :: "string \<Rightarrow> env \<Rightarrow> string" where
  \<comment> \<open>\<^verbatim>\<open>os.path.join(MODEL_DIR, f'{kind}_model_{now}.joblib')\<close>\<close>
  "model_path kind E = ''models/'' @ kind @ ''_model_'' @ strftime_compact (now E) @ ''.joblib''"

definition take_rows :: "nat list \<Rightarrow> dataframe \<Rightarrow> dataframe" where
  \<comment> \<open>the rows of the given positions, in that order\<close>
  "take_rows idx df = map (\<lambda>(n, s). (n, map (\<lambda>i. s ! i) idx)) df"

subsection \<open>Clustering\<close>

record clustering_result =
  n_clusters :: int
  noise_percentage :: real
  cluster_counts :: "(int \<times> nat) list"
  clustering_model_filename :: string
  clustered_data :: dataframe

definition clustering_fit ::
  "libs \<Rightarrow> env \<Rightarrow> dataframe \<Rightarrow> analyzer \<Rightarrow> clustering_result result \<times> analyzer" where
  \<comment> \<open>\<open>train_clustering_model\<close> after the call of \<open>preprocess_data\<close>\<close>
  "clustering_fit L E data a =
     (let feature_cols = feature_cols_of [''id'', ''timestamp'', ''created_at'', ''updated_at''] data;
          categorical_cols = categorical_cols_of feature_cols;
          numerical_cols = numerical_cols_of feature_cols data
      in case dbscan_fit L numerical_cols categorical_cols (select_cols feature_cols data) of
           Inl e \<Rightarrow> (Caught e, a)
         | Inr (p, label_of) \<Rightarrow>
             (let a1 = a\<lparr>clustering_model := Some p\<rparr>;
                  labels = map label_of [0..<nrows data];
                  data1 = set_col ''cluster'' (map (\<lambda>l. Num (of_int l)) labels) data;
                  n = int (length (remdups labels)) - (if - 1 \<in> set labels then 1 else 0);
                  noise = (if length labels > 0
                           then real (count_list labels (- 1)) / real (length labels) * 100
                           else 0);
                  model_filename = model_path ''clustering'' E
              in case joblib_dump L p model_filename of
                   Some e \<Rightarrow> (Caught e, a1)
                 | None \<Rightarrow>
                     (Success \<lparr>n_clusters = n, noise_percentage = noise,
                               cluster_counts = map (\<lambda>l. (l, count_list labels l)) (remdups labels),
                               clustering_model_filename = model_filename,
                               clustered_data = data1\<rparr>, a1)))"

definition train_clustering_model ::
  "libs \<Rightarrow> env \<Rightarrow> dataframe \<Rightarrow> analyzer \<Rightarrow> clustering_result result \<times> analyzer" where
  "train_clustering_model L E df a =
     (if df_empty df then (Fail ''No data provided'', a)
      else case preprocess_data L df a of
             (Inl e, a1) \<Rightarrow> (Caught e, a1)
           | (Inr data, a1) \<Rightarrow> clustering_fit L E data a1)"

subsection \<open>Anomaly detection\<close>

record anomaly_result =
  anomaly_percentage :: real
  anomaly_count :: nat
  anomaly_model_filename :: string
  anomalous_data :: dataframe
  data_with_scores :: dataframe

definition flagged_rows :: "dataframe \<Rightarrow> nat list" where
  \<comment> \<open>the positions of the rows with \<^verbatim>\<open>is_anomaly == 1\<close>\<close>
  "flagged_rows data =
     filter (\<lambda>i. get_col data ''is_anomaly'' ! i = Num 1) [0..<nrows data]"

definition anomaly_fit ::
  "libs \<Rightarrow> env \<Rightarrow> dataframe \<Rightarrow> real \<Rightarrow> analyzer \<Rightarrow> anomaly_result result \<times> analyzer" where
  \<comment> \<open>\<open>train_anomaly_detection_model\<close> after the call of \<open>preprocess_data\<close>\<close>
  "anomaly_fit L E data contamination a =
     (let feature_cols = feature_cols_of [''id'', ''timestamp'', ''created_at'', ''updated_at''] data;
          categorical_cols = categorical_cols_of feature_cols;
          numerical_cols = numerical_cols_of feature_cols data
      in case iforest_fit L (global_rng E) (Some 42) contamination numerical_cols categorical_cols
                (select_cols feature_cols data) of
           Inl e \<Rightarrow> (Caught e, a)
         | Inr (p, scored) \<Rightarrow>
             (let a1 = a\<lparr>anomaly_model := Some p\<rparr>
              in case scored of
                   Inl e \<Rightarrow> (Caught e, a1)
                 | Inr score_of \<Rightarrow>
                     (let rows = [0..<nrows data];
                          data1 = set_col ''anomaly_score''
                                    (map (\<lambda>i. Num (fst (score_of i))) rows) data;
                          data2 = set_col ''is_anomaly''
                                    (map (\<lambda>i. if snd (score_of i) = - 1 then Num 1 else Num 0) rows)
                                    data1;
                          flagged = flagged_rows data2;
                          percentage = (if nrows data2 > 0
                                        then real (length flagged) / real (nrows data2) * 100
                                        else 0);
                          model_filename = model_path ''anomaly'' E
                      in case joblib_dump L p model_filename of
                           Some e \<Rightarrow> (Caught e, a1)
                         | None \<Rightarrow>
                             (Success \<lparr>anomaly_percentage = percentage,
                                       anomaly_count = length flagged,
                                       anomaly_model_filename = model_filename,
                                       anomalous_data =
                                         take_rows
                                           (sort_positions L (get_col data2 ''anomaly_score'')
                                              flagged) data2,
                                       data_with_scores = data2\<rparr>, a1))))"

definition train_anomaly_detection_model ::
  "libs \<Rightarrow> env \<Rightarrow> dataframe \<Rightarrow> real \<Rightarrow> analyzer \<Rightarrow> anomaly_result result \<times> analyzer" where
  "train_anomaly_detection_model L E df contamination a =
     (if df_empty df then (Fail ''No data provided'', a)
      else case preprocess_data L df a of
             (Inl e, a1) \<Rightarrow> (Caught e, a1)
           | (Inr data, a1) \<Rightarrow> anomaly_fit L E data contamination a1)"

subsection \<open>Target prediction\<close>

record prediction_result =
  report :: prediction_report
  prediction_model_filename :: string

definition prediction_fit ::
  "libs \<Rightarrow> env \<Rightarrow> dataframe \<Rightarrow> analyzer \<Rightarrow> prediction_result result \<times> analyzer" where
  \<comment> \<open>\<open>train_target_prediction_model\<close> after the call of \<open>preprocess_data\<close>\<close>
  "prediction_fit L E data a =
     (if \<not> has_col ''target_country'' data
      then (Fail ''Target country column is required for prediction'', a)
      else
        let feature_cols = feature_cols_of
                             [''id'', ''target_country'', ''timestamp'', ''created_at'', ''updated_at'']
                             data;
            categorical_cols = categorical_cols_of feature_cols;
            numerical_cols = numerical_cols_of feature_cols data
        in case forest_fit L (global_rng E) (Some 42) numerical_cols categorical_cols
                  (select_cols feature_cols data) (get_col data ''target_country'') of
             Inl e \<Rightarrow> (Caught e, a)
           | Inr (p, evaluated) \<Rightarrow>
               (let a1 = a\<lparr>prediction_model := Some p\<rparr>
                in case evaluated of
                     Inl e \<Rightarrow> (Caught e, a1)
                   | Inr rep \<Rightarrow>
                       (let model_filename = model_path ''prediction'' E
                        in case joblib_dump L p model_filename of
                             Some e \<Rightarrow> (Caught e, a1)
                           | None \<Rightarrow>
                               (Success \<lparr>report = rep,
                                         prediction_model_filename = model_filename\<rparr>, a1))))"

definition train_target_prediction_model ::
  "libs \<Rightarrow> env \<Rightarrow> dataframe \<Rightarrow> analyzer \<Rightarrow> prediction_result result \<times> analyzer" where
  "train_target_prediction_model L E df a =
     (if df_empty df then (Fail ''No data provided'', a)
      else case preprocess_data L df a of
             (Inl e, a1) \<Rightarrow> (Caught e, a1)
           | (Inr data, a1) \<Rightarrow> prediction_fit L E data a1)"

subsection \<open>Arithmetic on instants\<close>

definition timestamp_bound :: int where
  \<comment> \<open>\<^verbatim>\<open>pd.Timestamp.max\<close> and \<^verbatim>\<open>pd.Timedelta.max\<close>, in whole seconds; the minima are the
      negatives\<close>
  "timestamp_bound = 9223372036"

definition timedelta_days :: "int \<Rightarrow> exn + int" where
  \<comment> \<open>\<^verbatim>\<open>timedelta(days=d)\<close>, in seconds\<close>
  "timedelta_days d = (if \<bar>d\<bar> > 999999999 then Inl OverflowError else Inr (d * day_seconds))"

definition shift_instant :: "int option \<Rightarrow> int \<Rightarrow> exn + int option" where
  \<comment> \<open>a pandas instant plus a \<^verbatim>\<open>timedelta\<close> of the given seconds; NaT stays NaT\<close>
  "shift_instant t delta =
     (case t of
        None \<Rightarrow> Inr None
      | Some u \<Rightarrow>
          (if \<bar>delta\<bar> > timestamp_bound then Inl OverflowError
           else if \<bar>u + delta\<bar> > timestamp_bound then Inl OutOfBoundsDatetime
           else Inr (Some (u + delta))))"

definition instants :: "series \<Rightarrow> int list" where
  "instants s = concat (map (\<lambda>c. case c of Ts t \<Rightarrow> [t] | Missing \<Rightarrow> [] | Num x \<Rightarrow> []
                                         | Str x \<Rightarrow> []) s)"

definition minimum :: "int list \<Rightarrow> int option" where
  \<comment> \<open>\<^verbatim>\<open>Series.min()\<close> of the instants of a column: NaT when there is none\<close>
  "minimum ts = (case ts of [] \<Rightarrow> None | t # rest \<Rightarrow> Some (foldl min t rest))"

definition maximum :: "int list \<Rightarrow> int option" where
  "maximum ts = (case ts of [] \<Rightarrow> None | t # rest \<Rightarrow> Some (foldl max t rest))"

subsection \<open>Temporal patterns\<close>

record periodic_pattern =
  period_days :: real
  strength :: real

record temporal_result =
  hourly_pattern :: "(int \<times> nat) list"
  daily_pattern :: "(int \<times> nat) list"
  monthly_pattern :: "(int \<times> nat) list"
  peak_hour :: int
  peak_day :: string
  peak_month :: string
  periodic_patterns :: "periodic_pattern list"

definition group_sizes :: "int list \<Rightarrow> (int \<times> nat) list" where
  \<comment> \<open>\<^verbatim>\<open>groupby(key).size()\<close>: one entry for each key, in ascending order\<close>
  "group_sizes xs = map (\<lambda>k. (k, count_list xs k)) (sort (remdups xs))"

definition idxmax :: "(int \<times> nat) list \<Rightarrow> exn + int" where
  \<comment> \<open>the first key of the largest size; raises on no entry\<close>
  "idxmax ps = (case ps of [] \<Rightarrow> Inl ValueError
                | p # rest \<Rightarrow> Inr (fst (foldl (\<lambda>b q. if snd q > snd b then q else b) p rest)))"

definition py_index :: "'a list \<Rightarrow> int \<Rightarrow> exn + 'a" where
  \<comment> \<open>\<^verbatim>\<open>xs[i]\<close> of a Python list\<close>
  "py_index xs i =
     (if 0 \<le> i \<and> i < int (length xs) then Inr (xs ! nat i)
      else if - int (length xs) \<le> i \<and> i < 0 then Inr (xs ! nat (int (length xs) + i))
      else Inl IndexError)"

definition day_names :: "string list" where
  "day_names = [''Monday'', ''Tuesday'', ''Wednesday'', ''Thursday'', ''Friday'', ''Saturday'',
                ''Sunday'']"

definition month_names :: "string list" where
  "month_names = [''January'', ''February'', ''March'', ''April'', ''May'', ''June'',
                  ''July'', ''August'', ''September'', ''October'', ''November'', ''December'']"

definition daily_counts :: "int list \<Rightarrow> nat list" where
  \<comment> \<open>\<^verbatim>\<open>data.resample('D', on='timestamp').size()\<close>: one count for each calendar day from the
      day of the earliest instant to the day of the latest\<close>
  "daily_counts ts =
     (case (minimum ts, maximum ts) of
        (Some lo, Some hi) \<Rightarrow>
          map (\<lambda>d. length (filter (\<lambda>t. t div day_seconds = d) ts))
              [lo div day_seconds..hi div day_seconds]
      | (Some lo, None) \<Rightarrow> [] | (None, hi) \<Rightarrow> [])"

definition fftfreq :: "nat \<Rightarrow> nat \<Rightarrow> real" where
  \<comment> \<open>\<^verbatim>\<open>np.fft.fftfreq(n)[i]\<close>\<close>
  "fftfreq n i = (if i \<le> (n - 1) div 2 then real i / real n else (real i - real n) / real n)"

definition largest :: "real list \<Rightarrow> real" where
  \<comment> \<open>\<^verbatim>\<open>max(values)\<close>, called on at least one value\<close>
  "largest xs = (case xs of [] \<Rightarrow> 0 | x # rest \<Rightarrow> foldl max x rest)"

definition dominant_periods :: "libs \<Rightarrow> nat list \<Rightarrow> (real \<times> real) list" where
  \<comment> \<open>the loop over \<^verbatim>\<open>range(1, len(fft_freq)//2)\<close>\<close>
  "dominant_periods L counts =
     (let n = length counts;
          top = largest (map (fft_abs L counts) [1..<n div 2])
      in concat (map (\<lambda>i.
           if fft_abs L counts i > 0.1 * top
           then (let period = 1 / \<bar>fftfreq n i\<bar>
                 in if period > 1 then [(period, fft_abs L counts i)] else [])
           else []) [1..<n div 2]))"

definition top_periods :: "libs \<Rightarrow> int list \<Rightarrow> exn + (real \<times> real) list" where
  \<comment> \<open>the periodicity branch, from the instants of the table (none of them NaT)\<close>
  "top_periods L ts =
     (case shift_instant (minimum ts) (14 * day_seconds) of
        Inl e \<Rightarrow> Inl e
      | Inr shifted \<Rightarrow>
          (case (shifted, maximum ts) of
             (Some lo14, Some hi) \<Rightarrow>
               (if lo14 \<le> hi
                then Inr (take 3 (sort_key (\<lambda>p. - snd p) (dominant_periods L (daily_counts ts))))
                else Inr [])
           | (Some lo14, None) \<Rightarrow> Inr [] | (None, hi) \<Rightarrow> Inr []))"

definition peak_times ::
  "series \<Rightarrow> exn + (int \<times> nat) list \<times> (int \<times> nat) list \<times> (int \<times> nat) list \<times> int \<times> string \<times> string"
  where
  \<comment> \<open>the three histograms, the peak hour and the names of the peak day and the peak month,
      from the column of instants. Where an instant is NaT the hours, weekdays and months
      are floats, and the float peak weekday is no list index.\<close>
  "peak_times col =
     (let ts = instants col;
          hourly = group_sizes (map hour_of ts);
          daily = group_sizes (map dayofweek_of ts);
          monthly = group_sizes (map month_of ts)
      in case (idxmax hourly, idxmax daily, idxmax monthly) of
           (Inl e, d, m) \<Rightarrow> Inl e
         | (Inr h, Inl e, m) \<Rightarrow> Inl e
         | (Inr h, Inr d, Inl e) \<Rightarrow> Inl e
         | (Inr h, Inr d, Inr m) \<Rightarrow>
             (if list_ex (\<lambda>c. c = Missing) col then Inl TypeError
              else case (py_index day_names d, py_index month_names (m - 1)) of
                     (Inl e, mn) \<Rightarrow> Inl e
                   | (Inr dn, Inl e) \<Rightarrow> Inl e
                   | (Inr dn, Inr mn) \<Rightarrow> Inr (hourly, daily, monthly, h, dn, mn)))"

definition temporal_analysis :: "libs \<Rightarrow> dataframe \<Rightarrow> temporal_result result" where
  \<comment> \<open>\<open>analyze_temporal_patterns\<close> after the call of \<open>preprocess_data\<close>\<close>
  "temporal_analysis L data0 =
     (if \<not> has_col ''timestamp'' data0
      then Fail ''Timestamp column is required for temporal analysis''
      else case to_datetime L (get_col data0 ''timestamp'') of
        Inl e \<Rightarrow> Caught e
      | Inr col \<Rightarrow>
         (case peak_times col of
            Inl e \<Rightarrow> Caught e
          | Inr (hourly, daily, monthly, h, dn, mn) \<Rightarrow>
              (case top_periods L (instants col) of
                 Inl e \<Rightarrow> Caught e
               | Inr tops \<Rightarrow>
                   Success \<lparr>hourly_pattern = hourly, daily_pattern = daily,
                            monthly_pattern = monthly, peak_hour = h,
                            peak_day = dn, peak_month = mn,
                            periodic_patterns =
                              map (\<lambda>p. \<lparr>period_days = round_tenth L (fst p),
                                         strength = snd p\<rparr>) tops\<rparr>)))"

definition analyze_temporal_patterns ::
  "libs \<Rightarrow> dataframe \<Rightarrow> analyzer \<Rightarrow> temporal_result result \<times> analyzer" where
  "analyze_temporal_patterns L df a =
     (if df_empty df then (Fail ''No data provided'', a)
      else case preprocess_data L df a of
             (Inl e, a1) \<Rightarrow> (Caught e, a1)
           | (Inr data, a1) \<Rightarrow> (temporal_analysis L data, a1))"

subsection \<open>Campaigns\<close>

record campaign =
  source_country :: cell
  target_country :: cell
  attack_type :: cell
  attack_count :: nat
  start_date :: string
  end_date :: string
  timespan_days :: int
  attack_frequency :: real
  data_sources :: "cell list"
  severity :: cell

record campaign_result =
  campaigns :: "campaign list"
  campaign_count :: nat
  parameters :: "int \<times> int"

definition cell_key :: "cell \<Rightarrow> nat \<times> real \<times> string \<times> int" where
  \<comment> \<open>the order of the group keys: texts as Python orders them; cells of unlike kinds, which
      real tables do not mix in one column, by kind\<close>
  "cell_key c = (case c of Missing \<Rightarrow> (0, 0, [], 0) | Num x \<Rightarrow> (1, x, [], 0)
                   | Str x \<Rightarrow> (2, 0, x, 0) | Ts t \<Rightarrow> (3, 0, [], t))"

definition group_key :: "cell \<times> cell \<times> cell \<Rightarrow>
    (nat \<times> real \<times> string \<times> int) \<times> (nat \<times> real \<times> string \<times> int) \<times> (nat \<times> real \<times> string \<times> int)" where
  "group_key k = (case k of (s, t, a) \<Rightarrow> (cell_key s, cell_key t, cell_key a))"

definition row_keys :: "dataframe \<Rightarrow> (cell \<times> cell \<times> cell) list" where
  "row_keys data =
     map (\<lambda>i. (get_col data ''source_country'' ! i, get_col data ''target_country'' ! i,
                get_col data ''attack_type'' ! i)) [0..<nrows data]"

definition has_missing :: "cell \<times> cell \<times> cell \<Rightarrow> bool" where
  "has_missing k = (case k of (s, t, a) \<Rightarrow> s = Missing \<or> t = Missing \<or> a = Missing)"

definition group_keys :: "dataframe \<Rightarrow> (cell \<times> cell \<times> cell) list" where
  \<comment> \<open>the keys of \<^verbatim>\<open>data.groupby([...])\<close>, ascending; a row with a missing key is in no
      group\<close>
  "group_keys data = sort_key group_key (remdups (filter (\<lambda>k. \<not> has_missing k) (row_keys data)))"

definition group_rows :: "dataframe \<Rightarrow> cell \<times> cell \<times> cell \<Rightarrow> nat list" where
  "group_rows data k = filter (\<lambda>i. row_keys data ! i = k) [0..<nrows data]"

definition unique :: "'a list \<Rightarrow> 'a list" where
  \<comment> \<open>\<^verbatim>\<open>Series.unique()\<close>: in the order of first appearance\<close>
  "unique xs = rev (remdups (rev xs))"

definition mode0 :: "series \<Rightarrow> cell" where
  \<comment> \<open>\<^verbatim>\<open>Series.mode()[0]\<close>, called on a column that is not all missing: the least of the
      most frequent values\<close>
  "mode0 s =
     (let vals = filter (\<lambda>c. c \<noteq> Missing) s;
          best = foldl max 0 (map (count_list vals) vals)
      in case sort_key cell_key (filter (\<lambda>v. count_list vals v = best) (remdups vals)) of
           [] \<Rightarrow> Missing | v # rest \<Rightarrow> v)"

definition campaign_of ::
  "dataframe \<Rightarrow> int \<Rightarrow> int \<Rightarrow> cell \<times> cell \<times> cell \<Rightarrow> campaign list" where
  \<comment> \<open>the body of the loop over the groups: no campaign or one\<close>
  "campaign_of data timespan_limit min_attacks k =
     (let idx = group_rows data k
      in if int (length idx) < min_attacks then []
         else
           let ts = instants (map (\<lambda>i. get_col data ''timestamp'' ! i) idx)
           in case (minimum ts, maximum ts) of
                (Some lo, Some hi) \<Rightarrow>
                  (let campaign_timespan = (hi - lo) div day_seconds
                   in if campaign_timespan \<le> timespan_limit
                      then [\<lparr>source_country = fst k, target_country = fst (snd k),
                             attack_type = snd (snd k), attack_count = length idx,
                             start_date = strftime_date lo, end_date = strftime_date hi,
                             timespan_days = campaign_timespan,
                             attack_frequency =
                               real (length idx) / real_of_int (max campaign_timespan 1),
                             data_sources =
                               (if has_col ''data_source'' data
                                then unique (map (\<lambda>i. get_col data ''data_source'' ! i) idx)
                                else []),
                             severity =
                               (if has_col ''severity'' data \<and>
                                   \<not> list_all (\<lambda>i. get_col data ''severity'' ! i = Missing) idx
                                then mode0 (map (\<lambda>i. get_col data ''severity'' ! i) idx)
                                else Str ''Unknown'')\<rparr>]
                      else [])
              | (Some lo, None) \<Rightarrow> [] | (None, hi) \<Rightarrow> [])"

definition campaign_analysis :: "libs \<Rightarrow> dataframe \<Rightarrow> int \<Rightarrow> int \<Rightarrow> campaign_result result" where
  \<comment> \<open>\<open>identify_attack_campaign\<close> after the call of \<open>preprocess_data\<close>. The unused
      \<^verbatim>\<open>start_date\<close> of the source is computed, since its computation can raise.\<close>
  "campaign_analysis L data0 timespan_limit min_attacks =
     (if \<not> has_col ''timestamp'' data0
      then Fail ''Timestamp column is required for campaign identification''
      else case to_datetime L (get_col data0 ''timestamp'') of
        Inl e \<Rightarrow> Caught e
      | Inr col \<Rightarrow>
         (let data = set_col ''timestamp'' col data0
          in case timedelta_days timespan_limit of
               Inl e \<Rightarrow> Caught e
             | Inr delta \<Rightarrow>
                 (case shift_instant (minimum (instants col)) (- delta) of
                    Inl e \<Rightarrow> Caught e
                  | Inr earliest \<Rightarrow>
                      (let found =
                             (if list_all (\<lambda>c. has_col c data)
                                   [''source_country'', ''target_country'', ''attack_type'']
                              then concat (map (campaign_of data timespan_limit min_attacks)
                                             (group_keys data))
                              else []);
                           sorted_campaigns = sort_key (\<lambda>c. - int (attack_count c)) found
                       in Success \<lparr>campaigns = sorted_campaigns,
                                   campaign_count = length sorted_campaigns,
                                   parameters = (timespan_limit, min_attacks)\<rparr>))))"

definition identify_attack_campaign ::
  "libs \<Rightarrow> dataframe \<Rightarrow> int \<Rightarrow> int \<Rightarrow> analyzer \<Rightarrow> campaign_result result \<times> analyzer" where
  "identify_attack_campaign L df timespan_limit min_attacks a =
     (if df_empty df then (Fail ''No data provided'', a)
      else case preprocess_data L df a of
             (Inl e, a1) \<Rightarrow> (Caught e, a1)
           | (Inr data, a1) \<Rightarrow> (campaign_analysis L data timespan_limit min_attacks, a1))"

subsection \<open>The orchestrator\<close>

record training_results =
  data_size :: nat
  timeframe :: "string option"
  clustering_results :: "clustering_result result"
  anomaly_results :: "anomaly_result result"
  prediction_results :: "prediction_result result"
  temporal_results :: "temporal_result result"
  campaign_results :: "campaign_result result"
  timestamp :: string

definition run_components :: "libs \<Rightarrow> (nat \<Rightarrow> env) \<Rightarrow> dataframe \<Rightarrow> string option \<Rightarrow> training_results \<times> analyzer" where
  \<comment> \<open>the five calls of \<open>train_models_on_attack_data\<close> on a fresh analyzer, with the
      environment of each call, and the dictionary built from their results\<close>
  "run_components L E attack_df tf =
     (case train_clustering_model L (E 0) attack_df new_analyzer of (r1, a1) \<Rightarrow>
      case train_anomaly_detection_model L (E 1) attack_df 0.05 a1 of (r2, a2) \<Rightarrow>
      case train_target_prediction_model L (E 2) attack_df a2 of (r3, a3) \<Rightarrow>
      case analyze_temporal_patterns L attack_df a3 of (r4, a4) \<Rightarrow>
      case identify_attack_campaign L attack_df 30 5 a4 of (r5, a5) \<Rightarrow>
        (\<lparr>data_size = nrows attack_df, timeframe = tf,
          clustering_results = r1, anomaly_results = r2, prediction_results = r3,
          temporal_results = r4, campaign_results = r5,
          timestamp = strftime_date (now (E 3)) @ '' '' @ strftime_clock (now (E 3))\<rparr>, a5))"

definition train_models_on_attack_data ::
  "libs \<Rightarrow> (nat \<Rightarrow> env) \<Rightarrow> exn + dataframe \<Rightarrow> string option \<Rightarrow> training_results result" where
  \<comment> \<open>the table is what \<^verbatim>\<open>db_manager.get_attacks\<close> and \<^verbatim>\<open>attacks_to_dataframe\<close> gave, or the
      exception they raised\<close>
  "train_models_on_attack_data L E fetched tf =
     (case fetched of
        Inl e \<Rightarrow> Caught e
      | Inr attack_df \<Rightarrow>
          (if df_empty attack_df then Fail ''No attack data available''
           else Success (fst (run_components L E attack_df tf))))"

section \<open>Notions used by the properties\<close>

definition failure_message :: "'a result \<Rightarrow> string option" where
  \<comment> \<open>the \<^verbatim>\<open>'message'\<close> of a failure, where it is a literal of the source\<close>
  "failure_message r = (case r of Fail m \<Rightarrow> Some m | Caught e \<Rightarrow> None | Success x \<Rightarrow> None)"

definition derived_columns :: "string list" where
  \<comment> \<open>the columns that feature engineering adds\<close>
  "derived_columns = [''hour_of_day'', ''day_of_week'', ''month'', ''year'', ''weekend'',
     ''source_country_frequency'', ''attack_type_frequency'']"

definition rectangular :: "nat \<Rightarrow> dataframe \<Rightarrow> bool" where
  \<comment> \<open>at least one column, and every column of \<open>n\<close> rows\<close>
  "rectangular n df = (df \<noteq> [] \<and> list_all (\<lambda>(c, s). length s = n) df)"

subsection \<open>Concrete libraries, environments and tables\<close>

definition score_key :: "cell \<Rightarrow> nat \<times> real" where
  \<comment> \<open>an order of \<^verbatim>\<open>sort_values\<close>: numbers ascending, NaN last\<close>
  "score_key c = (case c of Num x \<Rightarrow> (0, x) | Missing \<Rightarrow> (1, 0) | Str x \<Rightarrow> (1, 0)
                    | Ts t \<Rightarrow> (1, 0))"

definition nearest_tenth :: "real \<Rightarrow> real" where
  \<comment> \<open>a rounding to one decimal\<close>
  "nearest_tenth x = of_int \<lfloor>x * 10 + 1 / 2\<rfloor> / 10"

definition failing_libs :: libs where
  \<comment> \<open>libraries that raise on every fit and every parse\<close>
  "failing_libs =
     \<lparr>parse_datetimes = (\<lambda>s. Inl (LibraryError ''unparseable'')),
      dbscan_fit = (\<lambda>n c d. Inl (LibraryError ''fit failed'')),
      iforest_fit = (\<lambda>g r c n k d. Inl (LibraryError ''fit failed'')),
      forest_fit = (\<lambda>g r n k d y. Inl (LibraryError ''fit failed'')),
      fft_abs = (\<lambda>xs i. 0),
      joblib_dump = (\<lambda>p f. None),
      sort_positions = (\<lambda>s idx. sort_key (\<lambda>i. score_key (s ! i)) idx),
      round_tenth = nearest_tenth\<rparr>"

definition epoch_env :: env where
  "epoch_env = \<lparr>now = 1700000000, global_rng = 0\<rparr>"

definition no_rows :: dataframe where
  \<comment> \<open>the columns of \<^verbatim>\<open>attacks_to_dataframe\<close> that the analyzer reads, without a row\<close>
  "no_rows = [(''attack_type'', []), (''source_country'', []), (''target_country'', []),
              (''timestamp'', [])]"

definition unparsed_table :: dataframe where
  \<comment> \<open>two events whose time is a text that the date parser rejects\<close>
  "unparsed_table =
     [(''attack_type'', [Str ''DDoS'', Str ''Phishing'']),
      (''source_country'', [Str ''X'', Str ''Y'']),
      (''target_country'', [Str ''Z'', Str ''Z'']),
      (''timestamp'', [Str ''yesterday'', Str ''today''])]"

definition degenerate_table :: dataframe where
  \<comment> \<open>two events without any source latitude\<close>
  "degenerate_table =
     [(''attack_type'', [Str ''DDoS'', Str ''Phishing'']),
      (''source_latitude'', [Missing, Missing]),
      (''timestamp'', [Ts 1700000000, Ts 1700086400])]"

definition partial_table :: dataframe where
  \<comment> \<open>two events with a source and a time, without target and attack type\<close>
  "partial_table =
     [(''source_country'', [Str ''X'', Str ''X'']),
      (''timestamp'', [Ts 1700000000, Ts 1700086400])]"

definition headless_table :: dataframe where
  \<comment> \<open>two events without a time\<close>
  "headless_table =
     [(''source_country'', [Str ''X'', Str ''X'']), (''severity'', [Str ''High'', Missing])]"

definition noise_libs :: libs where
  \<comment> \<open>a clustering that labels every row as noise, as DBSCAN with \<^verbatim>\<open>min_samples=5\<close> does on
      a table of fewer than five rows\<close>
  "noise_libs = failing_libs\<lparr>dbscan_fit := (\<lambda>n c d. Inr (Pipeline 0, \<lambda>i. - 1))\<rparr>"

definition single_event :: dataframe where
  "single_event =
     [(''attack_type'', [Str ''DDoS'']),
      (''source_country'', [Str ''X'']),
      (''target_country'', [Str ''Y'']),
      (''timestamp'', [Ts 1700000000])]"

definition respects_seed :: "libs \<Rightarrow> bool" where
  \<comment> \<open>the contract of scikit-learn for an integer \<^verbatim>\<open>random_state\<close>: the fit does not read the
      global random generator\<close>
  "respects_seed L = (\<forall>g g' s c n k d.
      iforest_fit L g (Some s) c n k d = iforest_fit L g' (Some s) c n k d)"

definition scored_table :: "dataframe \<Rightarrow> (nat \<Rightarrow> real \<times> int) \<Rightarrow> dataframe" where
  \<comment> \<open>the table with the columns \<^verbatim>\<open>anomaly_score\<close> and \<^verbatim>\<open>is_anomaly\<close> added\<close>
  "scored_table data score_of =
     set_col ''is_anomaly''
       (map (\<lambda>i. if snd (score_of i) = - 1 then Num 1 else Num 0) [0..<nrows data])
       (set_col ''anomaly_score'' (map (\<lambda>i. Num (fst (score_of i))) [0..<nrows data]) data)"

definition has_text :: "dataframe \<Rightarrow> bool" where
  "has_text d = list_ex (\<lambda>(n, s). list_ex (\<lambda>c. case c of Str x \<Rightarrow> True | Missing \<Rightarrow> False
                                                   | Num x \<Rightarrow> False | Ts t \<Rightarrow> False) s) d"

definition scoring_libs :: libs where
  \<comment> \<open>an isolation forest that flags the first row, whatever the global generator. The
      source scores the feature table as it is, not transformed, with the detector alone,
      which raises where a feature column holds a text.\<close>
  "scoring_libs =
     failing_libs\<lparr>iforest_fit :=
       (\<lambda>g rs c n k d.
          Inr (Pipeline 1,
               if has_text d then Inl (LibraryError ''could not convert string to float'')
               else Inr (\<lambda>i. if i = 0 then (- 0.2, - 1) else (0.1, 1))))\<rparr>"

definition numeric_table :: dataframe where
  \<comment> \<open>three events with coordinates and time only, the first one far from the others\<close>
  "numeric_table =
     [(''source_latitude'', [Num 64.1, Num 48.8, Num 48.9]),
      (''source_longitude'', [Num (- 21.9), Num 2.3, Num 2.4]),
      (''timestamp'', [Ts 1700000000, Ts 1700086400, Ts 1700172800])]"

definition later_env :: env where
  "later_env = \<lparr>now = 1700003600, global_rng = 7\<rparr>"

definition unknown_table :: dataframe where
  \<comment> \<open>three events: one without source country, one whose source country is the text
      \<^verbatim>\<open>unknown\<close>; the same for the attack type\<close>
  "unknown_table =
     [(''attack_type'', [Str ''DDoS'', Missing, Str ''unknown'']),
      (''source_country'', [Missing, Str ''unknown'', Str ''X'']),
      (''timestamp'', [Ts 1700000000, Ts 1700086400, Ts 1700172800])]"



definition burst_table :: dataframe where
  \<comment> \<open>five events of one source, target and type within four days\<close>
  "burst_table =
     [(''attack_type'', [Str ''DDoS'', Str ''DDoS'', Str ''DDoS'', Str ''DDoS'', Str ''DDoS'']),
      (''source_country'', [Str ''X'', Str ''X'', Str ''X'', Str ''X'', Str ''X'']),
      (''target_country'', [Str ''Y'', Str ''Y'', Str ''Y'', Str ''Y'', Str ''Y'']),
      (''timestamp'', [Ts 1700000000, Ts 1700086400, Ts 1700172800, Ts 1700259200,
                       Ts 1700345600])]"


definition run_shared ::
  "libs \<Rightarrow> (nat \<Rightarrow> env) \<Rightarrow> dataframe \<Rightarrow> string option \<Rightarrow> exn + training_results \<times> analyzer" where
  \<comment> \<open>the orchestrator as the specification words it: it runs the feature engineering once
      and hands the engineered table to the five components, which do not engineer again\<close>
  "run_shared L E attack_df tf =
     (case preprocess_data L attack_df new_analyzer of
        (Inl e, a0) \<Rightarrow> Inl e
      | (Inr data, a0) \<Rightarrow>
          (case clustering_fit L (E 0) data a0 of (r1, a1) \<Rightarrow>
           case anomaly_fit L (E 1) data 0.05 a1 of (r2, a2) \<Rightarrow>
           case prediction_fit L (E 2) data a2 of (r3, a3) \<Rightarrow>
             Inr (\<lparr>data_size = nrows attack_df, timeframe = tf,
                   clustering_results = r1, anomaly_results = r2, prediction_results = r3,
                   temporal_results = temporal_analysis L data,
                   campaign_results = campaign_analysis L data 30 5,
                   timestamp = strftime_date (now (E 3)) @ '' '' @ strftime_clock (now (E 3))\<rparr>,
                  a3)))"

definition event_instants :: "dataframe \<Rightarrow> int list" where
  \<comment> \<open>the instants of the events of a table\<close>
  "event_instants data = instants (get_col data ''timestamp'')"

definition event_counts :: "dataframe \<Rightarrow> nat list" where
  \<comment> \<open>the number of events of each day, from the first day to the last\<close>
  "event_counts data = daily_counts (event_instants data)"

definition spectrum_threshold :: "libs \<Rightarrow> nat list \<Rightarrow> real" where
  \<comment> \<open>a tenth of the largest magnitude among the components that the loop examines, those
      of index 1 to \<open>n div 2 - 1\<close>\<close>
  "spectrum_threshold L counts =
     0.1 * largest (map (fft_abs L counts) [1..<length counts div 2])"

definition rounds_to_tenths :: "libs \<Rightarrow> bool" where
  \<comment> \<open>the contract of \<^verbatim>\<open>round(x, 1)\<close>: the result is within a twentieth of the argument\<close>
  "rounds_to_tenths L = (\<forall>x. \<bar>round_tenth L x - x\<bar> \<le> 1 / 20)"

definition dft_abs :: "nat list \<Rightarrow> nat \<Rightarrow> real" where
  \<comment> \<open>the magnitude of a component of the discrete Fourier transform, in exact arithmetic;
      \<^verbatim>\<open>abs(np.fft.fft(x)[k])\<close> is its floating-point value\<close>
  "dft_abs xs k =
     cmod (\<Sum>n<length xs. of_nat (xs ! n) * cis (- 2 * pi * real k * real n / real (length xs)))"

definition exact_libs :: libs where
  "exact_libs = failing_libs\<lparr>fft_abs := dft_abs\<rparr>"

definition peak_libs :: libs where
  \<comment> \<open>a transform with magnitude 4 at index 4 and 0 elsewhere\<close>
  "peak_libs = failing_libs\<lparr>fft_abs := (\<lambda>xs k. if k = 4 then 4 else 0)\<rparr>"

definition comb_counts :: "nat list" where
  "comb_counts = [1, 6, 0, 6, 1, 6, 0, 6, 1, 6, 0, 6, 1, 6, 0, 6]"

definition comb_table :: dataframe where
  \<comment> \<open>52 events on the sixteen days from 2023-11-14, each at one o'clock: one event on
      every fourth day, six events on every second day between\<close>
  "comb_table =
     [(''attack_type'', replicate 52 (Str ''DDoS'')),
      (''timestamp'',
       concat (map (\<lambda>d. replicate (comb_counts ! d) (Ts (1699920000 + 86400 * int d + 3600)))
                 [0..<16]))]"

definition sparse_span_table :: dataframe where
  \<comment> \<open>three events over fifteen days\<close>
  "sparse_span_table =
     [(''attack_type'', [Str ''DDoS'', Str ''DDoS'', Str ''Phishing'']),
      (''timestamp'', [Ts 1699923600, Ts 1700528400, Ts 1701219600])]"

section \<open>Properties\<close>

subsection \<open>Columns\<close>

lemma map_of_set_col: "map_of (set_col c s df) = (map_of df)(c \<mapsto> s)"
  by (induction df) (auto simp: fun_eq_iff)

lemma get_col_set_col: "get_col (set_col c s df) c' = (if c' = c then s else get_col df c')"
  by (simp add: get_col_def map_of_set_col)

lemma columns_set_col:
  "columns (set_col c s df) = (if c \<in> set (columns df) then columns df else columns df @ [c])"
proof (induction df)
  case Nil
  show ?case by (simp add: columns_def)
next
  case (Cons p df)
  obtain n v where p: "p = (n, v)" by (cases p)
  from Cons show ?case
    by (force simp: columns_def p)
qed

lemma has_col_set_col: "has_col c' (set_col c s df) = (c' = c \<or> has_col c' df)"
  by (auto simp: has_col_def columns_set_col)

lemma has_col_fill_numerical:
  "fill_numerical cols data = Inr d \<Longrightarrow> has_col c d = has_col c data"
proof (induction cols arbitrary: data)
  case Nil
  then show ?case by simp
next
  case (Cons col cols)
  then show ?case
    by (auto simp: has_col_set_col split: if_splits sum.splits)
qed

lemma get_col_fill_numerical:
  "fill_numerical cols data = Inr d \<Longrightarrow> c \<notin> set cols \<Longrightarrow> get_col d c = get_col data c"
proof (induction cols arbitrary: data)
  case Nil
  then show ?case by simp
next
  case (Cons col cols)
  then show ?case
    by (auto simp: get_col_set_col split: if_splits sum.splits)
qed

lemma has_col_fill_categorical:
  "has_col c (fill_categorical cols data) = has_col c data"
  by (induction cols arbitrary: data) (auto simp: has_col_set_col)

lemma fillna_idem: "v \<noteq> Missing \<Longrightarrow> fillna v (fillna v s) = fillna v s"
  by (simp add: fillna_def)

lemma get_col_fill_categorical:
  "get_col (fill_categorical cols data) c =
     (if c \<in> set cols \<and> has_col c data then fillna (Str ''unknown'') (get_col data c)
      else get_col data c)"
proof (induction cols arbitrary: data)
  case Nil
  then show ?case by simp
next
  case (Cons col cols)
  then show ?case
    by (auto simp: get_col_set_col has_col_set_col fillna_idem)
qed

lemma has_col_timestamp_features:
  "has_col c (timestamp_features d) =
     (c \<in> {''hour_of_day'', ''day_of_week'', ''month'', ''year'', ''weekend''} \<or> has_col c d)"
  by (auto simp: timestamp_features_def Let_def has_col_set_col)

lemma get_col_timestamp_features:
  "c \<notin> {''hour_of_day'', ''day_of_week'', ''month'', ''year'', ''weekend''} \<Longrightarrow>
   get_col (timestamp_features d) c = get_col d c"
  by (simp add: timestamp_features_def Let_def get_col_set_col)

lemma has_col_frequency_feature:
  "has_col c (frequency_feature col new d) = ((c = new \<and> has_col col d) \<or> has_col c d)"
  by (auto simp: frequency_feature_def has_col_set_col)

lemma get_col_frequency_feature:
  "get_col (frequency_feature col new d) c =
     (if c = new \<and> has_col col d then map_series (value_counts (get_col d col)) (get_col d col)
      else get_col d c)"
  by (simp add: frequency_feature_def get_col_set_col)

lemma engineer_stages:
  assumes "engineer L df = Inr data"
  obtains d0 d1 where "convert_timestamp L df = Inr d0"
    and "fill_numerical numerical_features
           (if has_col ''timestamp'' d0 then timestamp_features d0 else d0) = Inr d1"
    and "data = frequency_feature ''attack_type'' ''attack_type_frequency''
                  (frequency_feature ''source_country'' ''source_country_frequency''
                    (fill_categorical categorical_features d1))"
  using assms by (auto simp: engineer_def split: sum.splits)

lemma has_col_convert_timestamp:
  "convert_timestamp L df = Inr d0 \<Longrightarrow> has_col c d0 = has_col c df"
  by (auto simp: convert_timestamp_def has_col_set_col split: if_splits sum.splits)

lemma has_col_engineer:
  assumes "engineer L df = Inr data" and "c \<notin> set derived_columns"
  shows "has_col c data = has_col c df"
proof -
  from assms(1) obtain d0 d1 where c0: "convert_timestamp L df = Inr d0"
    and f: "fill_numerical numerical_features
              (if has_col ''timestamp'' d0 then timestamp_features d0 else d0) = Inr d1"
    and d: "data = frequency_feature ''attack_type'' ''attack_type_frequency''
                  (frequency_feature ''source_country'' ''source_country_frequency''
                    (fill_categorical categorical_features d1))"
    by (rule engineer_stages)
  have "has_col c d1 = has_col c d0"
    using has_col_fill_numerical[OF f, of c] assms(2)
    by (auto simp: has_col_timestamp_features derived_columns_def split: if_splits)
  moreover have "has_col c data = has_col c d1"
    using assms(2)
    by (auto simp: d has_col_frequency_feature has_col_fill_categorical derived_columns_def)
  ultimately show ?thesis
    using has_col_convert_timestamp[OF c0, of c] by simp
qed

subsection \<open>Empty input\<close>

lemma no_rows_empty: "nrows df = 0 \<Longrightarrow> df_empty df"
  by (simp add: df_empty_def)

text \<open>
  C1. Each of the five operations, called on a table without rows, returns the failure
  \<^verbatim>\<open>{'success': False, 'message': 'No data provided'}\<close>, whose message is not empty, and
  leaves the analyzer as it was: no exception leaves the operation.
\<close>

theorem empty_input_fails:
  assumes "nrows df = 0"
  shows "train_clustering_model L E df a = (Fail ''No data provided'', a)
       \<and> train_anomaly_detection_model L E df contamination a = (Fail ''No data provided'', a)
       \<and> train_target_prediction_model L E df a = (Fail ''No data provided'', a)
       \<and> analyze_temporal_patterns L df a = (Fail ''No data provided'', a)
       \<and> identify_attack_campaign L df timespan_limit min_attacks a
            = (Fail ''No data provided'', a)
       \<and> \<not> success (fst (train_clustering_model L E df a))
       \<and> \<not> success (fst (train_anomaly_detection_model L E df contamination a))
       \<and> \<not> success (fst (train_target_prediction_model L E df a))
       \<and> \<not> success (fst (analyze_temporal_patterns L df a))
       \<and> \<not> success (fst (identify_attack_campaign L df timespan_limit min_attacks a))
       \<and> ''No data provided'' \<noteq> []"
  using no_rows_empty[OF assms]
  by (simp add: train_clustering_model_def train_anomaly_detection_model_def
      train_target_prediction_model_def analyze_temporal_patterns_def
      identify_attack_campaign_def success_def)

theorem empty_input_fails_witness:
  "nrows no_rows = 0
   \<and> train_clustering_model failing_libs epoch_env no_rows new_analyzer
        = (Fail ''No data provided'', new_analyzer)
   \<and> train_anomaly_detection_model failing_libs epoch_env no_rows 0.05 new_analyzer
        = (Fail ''No data provided'', new_analyzer)
   \<and> train_target_prediction_model failing_libs epoch_env no_rows new_analyzer
        = (Fail ''No data provided'', new_analyzer)
   \<and> analyze_temporal_patterns failing_libs no_rows new_analyzer
        = (Fail ''No data provided'', new_analyzer)
   \<and> identify_attack_campaign failing_libs no_rows 30 5 new_analyzer
        = (Fail ''No data provided'', new_analyzer)"
proof -
  have h: "nrows no_rows = 0"
    by (simp add: nrows_def no_rows_def)
  from empty_input_fails[OF h, of failing_libs epoch_env new_analyzer "0.05" 30 5] h
  show ?thesis
    by blast
qed

subsection \<open>The flag of the orchestrator\<close>

text \<open>
  C10. On every table that is not empty the orchestrator returns \<^verbatim>\<open>'success': True\<close>,
  whatever the libraries do and whatever the five nested results are: the flag tells that
  there was data, and the dictionary holds the five results of the operations as they are.
\<close>

theorem orchestrator_flag:
  assumes "\<not> df_empty df"
  shows "success (train_models_on_attack_data L E (Inr df) tf)
       \<and> train_models_on_attack_data L E (Inr df) tf = Success (fst (run_components L E df tf))"
  using assms by (simp add: train_models_on_attack_data_def success_def)

theorem orchestrator_flag_witness:
  "\<not> df_empty unparsed_table
   \<and> success (train_models_on_attack_data failing_libs (\<lambda>i. epoch_env) (Inr unparsed_table) None)
   \<and> (case train_models_on_attack_data failing_libs (\<lambda>i. epoch_env) (Inr unparsed_table) None of
        Success b \<Rightarrow>
          \<not> success (clustering_results b) \<and> \<not> success (anomaly_results b)
          \<and> \<not> success (prediction_results b) \<and> \<not> success (temporal_results b)
          \<and> \<not> success (campaign_results b)
      | Fail m \<Rightarrow> False
      | Caught e \<Rightarrow> False)"
proof -
  have h: "\<not> df_empty unparsed_table"
    by code_simp
  have nested:
    "case train_models_on_attack_data failing_libs (\<lambda>i. epoch_env) (Inr unparsed_table) None of
        Success b \<Rightarrow>
          \<not> success (clustering_results b) \<and> \<not> success (anomaly_results b)
          \<and> \<not> success (prediction_results b) \<and> \<not> success (temporal_results b)
          \<and> \<not> success (campaign_results b)
      | Fail m \<Rightarrow> False
      | Caught e \<Rightarrow> False"
    by code_simp
  from orchestrator_flag[OF h, of failing_libs "\<lambda>i. epoch_env" None] h nested
  show ?thesis
    by blast
qed

subsection \<open>A numeric column without any value\<close>

text \<open>
  C4. The claim is that a numeric column that is missing in every row comes out of
  feature engineering as zeros. On \<open>degenerate_table\<close> the median of
  \<^verbatim>\<open>source_latitude\<close> is NaN, filling with NaN changes nothing, and the column comes out
  missing in every row, whatever the libraries are.
\<close>

theorem degenerate_column_stays_missing:
  "fst (preprocess_data L degenerate_table a) =
     Inr [(''attack_type'', [Str ''DDoS'', Str ''Phishing'']),
          (''source_latitude'', [Missing, Missing]),
          (''timestamp'', [Ts 1700000000, Ts 1700086400]),
          (''hour_of_day'', [Num 22, Num 22]),
          (''day_of_week'', [Num 1, Num 2]),
          (''month'', [Num 11, Num 11]),
          (''year'', [Num 2023, Num 2023]),
          (''weekend'', [Num 0, Num 0]),
          (''attack_type_frequency'', [Num 1, Num 1])]"
  by code_simp

subsection \<open>Campaigns on a table without a structural column\<close>

lemma key_not_derived:
  "''timestamp'' \<notin> set derived_columns" "''source_country'' \<notin> set derived_columns"
  "''target_country'' \<notin> set derived_columns" "''attack_type'' \<notin> set derived_columns"
  by (simp_all add: derived_columns_def)

lemma campaign_analysis_no_timestamp:
  "\<not> has_col ''timestamp'' data \<Longrightarrow>
   campaign_analysis L data limit m
     = Fail ''Timestamp column is required for campaign identification''"
  by (simp add: campaign_analysis_def)

lemma campaign_analysis_partial:
  assumes "\<not> has_col ''source_country'' data \<or> \<not> has_col ''target_country'' data
           \<or> \<not> has_col ''attack_type'' data"
    and "campaign_analysis L data limit m = Success x"
  shows "campaigns x = [] \<and> campaign_count x = 0"
proof (cases "has_col ''timestamp'' data")
  case False
  with assms(2) show ?thesis by (simp add: campaign_analysis_def)
next
  case True
  from assms(1) have "\<And>col. \<not> list_all (\<lambda>c. has_col c (set_col ''timestamp'' col data))
       [''source_country'', ''target_country'', ''attack_type'']"
    by (auto simp: has_col_set_col)
  with assms(2) True show ?thesis
    by (auto simp: campaign_analysis_def Let_def split: sum.splits)
qed

lemma campaign_unfold:
  "\<not> df_empty df \<Longrightarrow> fst (identify_attack_campaign L df limit m a) =
     (case engineer L df of Inl e \<Rightarrow> Caught e | Inr data \<Rightarrow> campaign_analysis L data limit m)"
  by (simp add: identify_attack_campaign_def preprocess_data_def Let_def split: sum.splits)

text \<open>
  C5, as stated, fails: on \<open>partial_table\<close>, which has neither target country nor attack
  type, the operation returns \<^verbatim>\<open>'success': True\<close> with no campaign.
\<close>

theorem partial_table_succeeds:
  "\<not> df_empty partial_table
   \<and> \<not> has_col ''target_country'' partial_table
   \<and> \<not> has_col ''attack_type'' partial_table
   \<and> fst (identify_attack_campaign failing_libs partial_table 30 5 new_analyzer)
        = Success \<lparr>campaigns = [], campaign_count = 0, parameters = (30, 5)\<rparr>
   \<and> success (fst (identify_attack_campaign failing_libs partial_table 30 5 new_analyzer))"
  by code_simp

text \<open>
  C5, amended. On a table that is not empty: without the timestamp column the operation
  fails, with the message of the source or with the exception that feature engineering
  raised; without source country, target country or attack type it never returns a
  campaign: if it succeeds, the list of campaigns is empty.
\<close>

theorem campaign_missing_columns:
  assumes "\<not> df_empty df"
  shows "(\<not> has_col ''timestamp'' df \<longrightarrow>
           \<not> success (fst (identify_attack_campaign L df limit m a))
           \<and> (fst (identify_attack_campaign L df limit m a)
                 = Fail ''Timestamp column is required for campaign identification''
              \<or> (\<exists>e. engineer L df = Inl e
                     \<and> fst (identify_attack_campaign L df limit m a) = Caught e)))
       \<and> (\<not> has_col ''source_country'' df \<or> \<not> has_col ''target_country'' df
            \<or> \<not> has_col ''attack_type'' df \<longrightarrow>
           (\<forall>x. fst (identify_attack_campaign L df limit m a) = Success x \<longrightarrow>
                campaigns x = [] \<and> campaign_count x = 0))"
proof (cases "engineer L df")
  case (Inl e)
  with assms show ?thesis by (simp add: campaign_unfold success_def)
next
  case (Inr data)
  have r: "fst (identify_attack_campaign L df limit m a) = campaign_analysis L data limit m"
    using assms Inr by (simp add: campaign_unfold)
  have h: "has_col ''timestamp'' data = has_col ''timestamp'' df"
      "has_col ''source_country'' data = has_col ''source_country'' df"
      "has_col ''target_country'' data = has_col ''target_country'' df"
      "has_col ''attack_type'' data = has_col ''attack_type'' df"
    using has_col_engineer[OF Inr] key_not_derived by blast+
  show ?thesis
    unfolding r
    using campaign_analysis_no_timestamp[of data L limit m]
      campaign_analysis_partial[of data L limit m] h
    by (auto simp: success_def)
qed

theorem campaign_missing_columns_witness:
  "\<not> df_empty headless_table \<and> \<not> has_col ''timestamp'' headless_table
   \<and> \<not> success (fst (identify_attack_campaign failing_libs headless_table 30 5 new_analyzer))
   \<and> fst (identify_attack_campaign failing_libs headless_table 30 5 new_analyzer)
        = Fail ''Timestamp column is required for campaign identification''
   \<and> \<not> df_empty partial_table \<and> \<not> has_col ''attack_type'' partial_table
   \<and> (\<exists>x. fst (identify_attack_campaign failing_libs partial_table 30 5 new_analyzer) = Success x
          \<and> campaigns x = [] \<and> campaign_count x = 0)"
proof -
  have h: "\<not> df_empty headless_table" by code_simp
  have t: "\<not> has_col ''timestamp'' headless_table" by code_simp
  have "case engineer failing_libs headless_table of Inr d \<Rightarrow> True | Inl e \<Rightarrow> False"
    by code_simp
  then have e: "engineer failing_libs headless_table \<noteq> Inl e" for e
    by (cases "engineer failing_libs headless_table") simp_all
  have p: "\<not> df_empty partial_table" by code_simp
  have k: "\<not> has_col ''attack_type'' partial_table" by code_simp
  have "success (fst (identify_attack_campaign failing_libs partial_table 30 5 new_analyzer))"
    by code_simp
  then obtain x where
    x: "fst (identify_attack_campaign failing_libs partial_table 30 5 new_analyzer) = Success x"
    by (cases "fst (identify_attack_campaign failing_libs partial_table 30 5 new_analyzer)")
       (simp_all add: success_def)
  from campaign_missing_columns[OF h, of failing_libs 30 5 new_analyzer]
    campaign_missing_columns[OF p, of failing_libs 30 5 new_analyzer] h t e p k x
  show ?thesis by blast
qed

subsection \<open>Row counts\<close>

lemma rectangular_nrows: "rectangular n df \<Longrightarrow> nrows df = n"
  by (cases df) (auto simp: rectangular_def nrows_def)

lemma has_col_map_of: "has_col c df \<Longrightarrow> \<exists>s. map_of df c = Some s \<and> (c, s) \<in> set df"
proof (induction df)
  case Nil
  then show ?case by (simp add: has_col_def columns_def)
next
  case (Cons p df)
  then show ?case by (cases p) (auto simp: has_col_def columns_def)
qed

lemma rectangular_get_col:
  assumes "rectangular n df" and "has_col c df"
  shows "length (get_col df c) = n"
proof -
  from has_col_map_of[OF assms(2)] obtain s where m: "map_of df c = Some s" and i: "(c, s) \<in> set df"
    by blast
  from assms(1) i have "length s = n" by (auto simp: rectangular_def list_all_iff)
  with m show ?thesis by (simp add: get_col_def)
qed

lemma set_col_not_Nil: "set_col c s df \<noteq> []"
  by (cases df) (auto split: if_splits)

lemma list_all_set_col: "list_all P df \<Longrightarrow> P (c, s) \<Longrightarrow> list_all P (set_col c s df)"
  by (induction df) auto

lemma rectangular_set_col:
  "rectangular n df \<Longrightarrow> length s = n \<Longrightarrow> rectangular n (set_col c s df)"
  by (simp add: rectangular_def set_col_not_Nil list_all_set_col)

lemma rectangular_start: "wf_df df \<Longrightarrow> \<not> df_empty df \<Longrightarrow> rectangular (nrows df) df"
  by (simp add: wf_df_def df_empty_def rectangular_def)


lemma rectangular_timestamp_features:
  "rectangular n d \<Longrightarrow> has_col ''timestamp'' d \<Longrightarrow> rectangular n (timestamp_features d)"
  by (simp add: timestamp_features_def Let_def rectangular_set_col rectangular_get_col
      get_col_set_col dt_field_def)

lemma rectangular_fill_numerical:
  "fill_numerical cols data = Inr d \<Longrightarrow> rectangular n data \<Longrightarrow> rectangular n d"
proof (induction cols arbitrary: data)
  case Nil
  then show ?case by simp
next
  case (Cons col cols)
  show ?case
  proof (cases "has_col col data")
    case False
    with Cons show ?thesis by simp
  next
    case True
    with Cons.prems(1) obtain m where m: "median (get_col data col) = Inr m"
      and f: "fill_numerical cols (set_col col (fillna m (get_col data col)) data) = Inr d"
      by (auto split: sum.splits)
    have "rectangular n (set_col col (fillna m (get_col data col)) data)"
      using Cons.prems(2) True
      by (simp add: rectangular_set_col rectangular_get_col fillna_def)
    with Cons.IH[OF f] show ?thesis .
  qed
qed

lemma rectangular_fill_categorical:
  "rectangular n data \<Longrightarrow> rectangular n (fill_categorical cols data)"
proof (induction cols arbitrary: data)
  case Nil
  then show ?case by simp
next
  case (Cons col cols)
  then show ?case
    by (simp add: rectangular_set_col rectangular_get_col fillna_def)
qed

lemma rectangular_frequency_feature:
  "rectangular n d \<Longrightarrow> rectangular n (frequency_feature col new d)"
  by (simp add: frequency_feature_def rectangular_set_col rectangular_get_col map_series_def)

lemma length_to_datetime: "to_datetime L s = Inr col \<Longrightarrow> length col = length s"
  by (auto simp: to_datetime_def split: if_splits sum.splits)

lemma rectangular_convert_timestamp:
  "convert_timestamp L df = Inr d0 \<Longrightarrow> rectangular n df \<Longrightarrow> rectangular n d0"
  by (auto simp: convert_timestamp_def rectangular_set_col rectangular_get_col
      dest!: length_to_datetime split: if_splits sum.splits)

lemma rectangular_engineer:
  assumes "engineer L df = Inr data" and "rectangular n df"
  shows "rectangular n data"
proof -
  from assms(1) obtain d0 d1 where c0: "convert_timestamp L df = Inr d0"
    and f: "fill_numerical numerical_features
              (if has_col ''timestamp'' d0 then timestamp_features d0 else d0) = Inr d1"
    and d: "data = frequency_feature ''attack_type'' ''attack_type_frequency''
                  (frequency_feature ''source_country'' ''source_country_frequency''
                    (fill_categorical categorical_features d1))"
    by (rule engineer_stages)
  have r0: "rectangular n d0"
    using rectangular_convert_timestamp[OF c0 assms(2)] .
  have "rectangular n (if has_col ''timestamp'' d0 then timestamp_features d0 else d0)"
    using r0 by (simp add: rectangular_timestamp_features)
  from rectangular_fill_numerical[OF f this] have "rectangular n d1" .
  then show ?thesis
    by (simp add: d rectangular_frequency_feature rectangular_fill_categorical)
qed

lemma engineer_nrows:
  assumes "wf_df df" and "\<not> df_empty df" and "engineer L df = Inr data"
  shows "nrows data = nrows df" and "data \<noteq> []"
  using rectangular_engineer[OF assms(3) rectangular_start[OF assms(1,2)]]
  by (simp_all add: rectangular_nrows rectangular_def)

subsection \<open>The share of noise\<close>

lemma preprocess_data_nonempty:
  "\<not> df_empty df \<Longrightarrow> preprocess_data L df a =
     (case engineer L df of
        Inl e \<Rightarrow> (Inl e, a\<lparr>preprocess_calls := Suc (preprocess_calls a)\<rparr>)
      | Inr data \<Rightarrow> (Inr data, a\<lparr>preprocess_calls := Suc (preprocess_calls a),
                                  features := columns data\<rparr>))"
  by (simp add: preprocess_data_def Let_def split: sum.splits)

lemma clustering_unfold:
  "\<not> df_empty df \<Longrightarrow> train_clustering_model L E df a =
     (case engineer L df of
        Inl e \<Rightarrow> (Caught e, a\<lparr>preprocess_calls := Suc (preprocess_calls a)\<rparr>)
      | Inr data \<Rightarrow> clustering_fit L E data
          (a\<lparr>preprocess_calls := Suc (preprocess_calls a), features := columns data\<rparr>))"
  by (simp add: train_clustering_model_def preprocess_data_nonempty split: sum.splits)

lemma count_noise_cells:
  "count_list (map (\<lambda>l. Num (of_int l)) ls) (Num (- 1)) = count_list ls (- 1)"
  by (induction ls) auto

lemma clustering_fit_success:
  assumes "fst (clustering_fit L E data a) = Success r"
  shows "\<exists>labels. length labels = nrows data
      \<and> get_col (clustered_data r) ''cluster'' = map (\<lambda>l. Num (of_int l)) labels
      \<and> noise_percentage r = (if length labels > 0
           then real (count_list labels (- 1)) / real (length labels) * 100 else 0)"
proof -
  let ?fc = "feature_cols_of [''id'', ''timestamp'', ''created_at'', ''updated_at''] data"
  obtain res where res: "dbscan_fit L (numerical_cols_of ?fc data) (categorical_cols_of ?fc)
           (select_cols ?fc data) = res" by blast
  show ?thesis
  proof (cases res)
    case (Inl e)
    with assms res show ?thesis by (simp add: clustering_fit_def Let_def)
  next
    case (Inr pl)
    obtain p label_of where pl: "pl = (p, label_of)" by (cases pl)
    show ?thesis
    proof (cases "joblib_dump L p (model_path ''clustering'' E)")
      case (Some e)
      with assms res Inr pl show ?thesis by (simp add: clustering_fit_def Let_def)
    next
      case None
      with assms res Inr pl
      have r: "r = \<lparr>n_clusters = int (length (remdups (map label_of [0..<nrows data])))
                       - (if - 1 \<in> set (map label_of [0..<nrows data]) then 1 else 0),
                  noise_percentage = (if length (map label_of [0..<nrows data]) > 0
                           then real (count_list (map label_of [0..<nrows data]) (- 1))
                                  / real (length (map label_of [0..<nrows data])) * 100
                           else 0),
                  cluster_counts = map (\<lambda>l. (l, count_list (map label_of [0..<nrows data]) l))
                                      (remdups (map label_of [0..<nrows data])),
                  clustering_model_filename = model_path ''clustering'' E,
                  clustered_data = set_col ''cluster''
                     (map (\<lambda>l. Num (of_int l)) (map label_of [0..<nrows data])) data\<rparr>"
        by (simp add: clustering_fit_def Let_def)
      show ?thesis
        by (rule exI[of _ "map label_of [0..<nrows data]"]) (simp add: r get_col_set_col)
    qed
  qed
qed

text \<open>
  C3, as stated, fails: the operation returns the share of noise as a percentage. On one
  event, which the clustering labels as noise, one row of one is noise and the result is
  100, not a number between 0 and 1.
\<close>

theorem single_noise_row_is_hundred: "\<not> df_empty single_event \<and>
  (case fst (train_clustering_model noise_libs epoch_env single_event new_analyzer) of
     Success r \<Rightarrow> get_col (clustered_data r) ''cluster'' = [Num (- 1)]
        \<and> noise_percentage r = 100 \<and> \<not> noise_percentage r \<le> 1
   | Fail m \<Rightarrow> False | Caught e \<Rightarrow> False)"
  by code_simp

text \<open>
  C3, amended. On every well-formed table that is not empty, when the fit succeeds, the
  result \<^verbatim>\<open>noise_percentage\<close> is the number of rows labelled -1 in the returned table,
  divided by the number of rows and multiplied by 100, a number between 0 and 100.
\<close>

theorem noise_percentage_formula:
  assumes "wf_df df" and "\<not> df_empty df"
    and "fst (train_clustering_model L E df a) = Success r"
  shows "length (get_col (clustered_data r) ''cluster'') = nrows df
       \<and> noise_percentage r
           = real (count_list (get_col (clustered_data r) ''cluster'') (Num (- 1)))
               / real (nrows df) * 100
       \<and> 0 \<le> noise_percentage r \<and> noise_percentage r \<le> 100"
proof -
  from assms(2,3) obtain data where e: "engineer L df = Inr data"
    and f: "fst (clustering_fit L E data
          (a\<lparr>preprocess_calls := Suc (preprocess_calls a), features := columns data\<rparr>)) = Success r"
    by (auto simp: clustering_unfold split: sum.splits)
  from clustering_fit_success[OF f] obtain labels where
    l: "length labels = nrows data"
    and c: "get_col (clustered_data r) ''cluster'' = map (\<lambda>l. Num (of_int l)) labels"
    and n: "noise_percentage r = (if length labels > 0
           then real (count_list labels (- 1)) / real (length labels) * 100 else 0)"
    by blast
  have rows: "nrows data = nrows df"
    using engineer_nrows(1)[OF assms(1,2) e] .
  have pos: "0 < nrows df"
    using assms(2) by (simp add: df_empty_def)
  have le: "count_list labels (- 1) \<le> length labels"
    by (rule count_le_length)
  have eq: "noise_percentage r = real (count_list labels (- 1)) / real (nrows df) * 100"
    using n l rows pos by simp
  have "real (count_list labels (- 1)) \<le> real (nrows df)"
    using le l rows by simp
  then have up: "noise_percentage r \<le> 100"
    unfolding eq using pos by (simp add: field_simps)
  have lo: "0 \<le> noise_percentage r"
    unfolding eq by simp
  have len: "length (get_col (clustered_data r) ''cluster'') = nrows df"
    using l rows by (simp add: c)
  have cnt: "count_list (get_col (clustered_data r) ''cluster'') (Num (- 1)) = count_list labels (- 1)"
    unfolding c by (rule count_noise_cells)
  show ?thesis
    using len eq up lo by (simp add: cnt)
qed

theorem noise_percentage_formula_witness:
  "wf_df single_event \<and> \<not> df_empty single_event
   \<and> (\<exists>r. fst (train_clustering_model noise_libs epoch_env single_event new_analyzer) = Success r
        \<and> length (get_col (clustered_data r) ''cluster'') = nrows single_event
        \<and> noise_percentage r
           = real (count_list (get_col (clustered_data r) ''cluster'') (Num (- 1)))
               / real (nrows single_event) * 100
        \<and> 0 \<le> noise_percentage r \<and> noise_percentage r \<le> 100)"
proof -
  have w: "wf_df single_event" by code_simp
  have n: "\<not> df_empty single_event" by code_simp
  have "success (fst (train_clustering_model noise_libs epoch_env single_event new_analyzer))"
    by code_simp
  then obtain r where
    r: "fst (train_clustering_model noise_libs epoch_env single_event new_analyzer) = Success r"
    by (cases "fst (train_clustering_model noise_libs epoch_env single_event new_analyzer)")
       (simp_all add: success_def)
  from noise_percentage_formula[OF w n r] w n r show ?thesis by blast
qed

subsection \<open>Reproducible anomaly detection\<close>

lemma anomaly_unfold:
  "\<not> df_empty df \<Longrightarrow> train_anomaly_detection_model L E df c a =
     (case engineer L df of
        Inl e \<Rightarrow> (Caught e, a\<lparr>preprocess_calls := Suc (preprocess_calls a)\<rparr>)
      | Inr data \<Rightarrow> anomaly_fit L E data c
          (a\<lparr>preprocess_calls := Suc (preprocess_calls a), features := columns data\<rparr>))"
  by (simp add: train_anomaly_detection_model_def preprocess_data_nonempty split: sum.splits)

lemma anomaly_fit_success:
  assumes "fst (anomaly_fit L E data c a) = Success r"
  shows "\<exists>p score_of.
      iforest_fit L (global_rng E) (Some 42) c
        (numerical_cols_of (feature_cols_of [''id'', ''timestamp'', ''created_at'', ''updated_at''] data) data)
        (categorical_cols_of (feature_cols_of [''id'', ''timestamp'', ''created_at'', ''updated_at''] data))
        (select_cols (feature_cols_of [''id'', ''timestamp'', ''created_at'', ''updated_at''] data) data)
        = Inr (p, Inr score_of)
      \<and> data_with_scores r = scored_table data score_of
      \<and> anomaly_count r = length (flagged_rows (scored_table data score_of))
      \<and> anomalous_data r =
           take_rows (sort_positions L (get_col (scored_table data score_of) ''anomaly_score'')
                        (flagged_rows (scored_table data score_of)))
             (scored_table data score_of)"
proof -
  let ?fc = "feature_cols_of [''id'', ''timestamp'', ''created_at'', ''updated_at''] data"
  obtain res where res: "iforest_fit L (global_rng E) (Some 42) c (numerical_cols_of ?fc data)
           (categorical_cols_of ?fc) (select_cols ?fc data) = res" by blast
  show ?thesis
  proof (cases res)
    case (Inl e)
    with assms res show ?thesis by (simp add: anomaly_fit_def Let_def)
  next
    case (Inr ps)
    obtain p scored where ps: "ps = (p, scored)" by (cases ps)
    show ?thesis
    proof (cases scored)
      case (Inl e)
      with assms res Inr ps show ?thesis by (simp add: anomaly_fit_def Let_def)
    next
      case sc: (Inr score_of)
      show ?thesis
      proof (cases "joblib_dump L p (model_path ''anomaly'' E)")
        case (Some e)
        with assms res Inr ps sc show ?thesis by (simp add: anomaly_fit_def Let_def)
      next
        case None
        with assms res Inr ps sc
        have "data_with_scores r = scored_table data score_of
          \<and> anomaly_count r = length (flagged_rows (scored_table data score_of))
          \<and> anomalous_data r =
           take_rows (sort_positions L (get_col (scored_table data score_of) ''anomaly_score'')
                        (flagged_rows (scored_table data score_of)))
             (scored_table data score_of)"
          by (auto simp: anomaly_fit_def Let_def scored_table_def)
        with res Inr ps sc show ?thesis by blast
      qed
    qed
  qed
qed

text \<open>
  C7. The forest is fitted with the fixed \<^verbatim>\<open>random_state=42\<close>. With libraries that keep the
  contract of a seeded fit, two successful runs on the same table with the same
  contamination flag the same rows and return the same scored table, whatever the clock,
  the state of the global random generator and the analyzer are in each run. The witness
  is a table of numbers only: the source scores the feature table with the detector
  alone, so that a run succeeds only where no feature column holds a text.
\<close>

theorem seeded_runs_flag_the_same_rows:
  assumes "respects_seed L"
    and "fst (train_anomaly_detection_model L E df c a) = Success r"
    and "fst (train_anomaly_detection_model L E' df c a') = Success r'"
  shows "flagged_rows (data_with_scores r) = flagged_rows (data_with_scores r')
       \<and> data_with_scores r = data_with_scores r'
       \<and> anomalous_data r = anomalous_data r'
       \<and> anomaly_count r = anomaly_count r'"
proof -
  have ne: "\<not> df_empty df"
    using assms(2) by (auto simp: train_anomaly_detection_model_def)
  from ne assms(2) obtain data where e: "engineer L df = Inr data"
    and f: "fst (anomaly_fit L E data c
          (a\<lparr>preprocess_calls := Suc (preprocess_calls a), features := columns data\<rparr>)) = Success r"
    by (auto simp: anomaly_unfold split: sum.splits)
  from ne assms(3) e have f': "fst (anomaly_fit L E' data c
          (a'\<lparr>preprocess_calls := Suc (preprocess_calls a'), features := columns data\<rparr>)) = Success r'"
    by (auto simp: anomaly_unfold split: sum.splits)
  let ?fc = "feature_cols_of [''id'', ''timestamp'', ''created_at'', ''updated_at''] data"
  from anomaly_fit_success[OF f] obtain p s where
    i: "iforest_fit L (global_rng E) (Some 42) c (numerical_cols_of ?fc data)
          (categorical_cols_of ?fc) (select_cols ?fc data) = Inr (p, Inr s)"
    and d: "data_with_scores r = scored_table data s"
    and n: "anomaly_count r = length (flagged_rows (scored_table data s))"
    and m: "anomalous_data r =
           take_rows (sort_positions L (get_col (scored_table data s) ''anomaly_score'')
                        (flagged_rows (scored_table data s))) (scored_table data s)"
    by blast
  from anomaly_fit_success[OF f'] obtain p' s' where
    i': "iforest_fit L (global_rng E') (Some 42) c (numerical_cols_of ?fc data)
          (categorical_cols_of ?fc) (select_cols ?fc data) = Inr (p', Inr s')"
    and d': "data_with_scores r' = scored_table data s'"
    and n': "anomaly_count r' = length (flagged_rows (scored_table data s'))"
    and m': "anomalous_data r' =
           take_rows (sort_positions L (get_col (scored_table data s') ''anomaly_score'')
                        (flagged_rows (scored_table data s'))) (scored_table data s')"
    by blast
  from assms(1) have "iforest_fit L (global_rng E) (Some 42) c (numerical_cols_of ?fc data)
          (categorical_cols_of ?fc) (select_cols ?fc data)
      = iforest_fit L (global_rng E') (Some 42) c (numerical_cols_of ?fc data)
          (categorical_cols_of ?fc) (select_cols ?fc data)"
    unfolding respects_seed_def by blast
  with i i' have "s = s'" by simp
  with d d' n n' m m' show ?thesis by simp
qed

theorem seeded_runs_flag_the_same_rows_witness:
  "respects_seed scoring_libs
   \<and> \<not> has_text numeric_table
   \<and> (\<exists>r r'. fst (train_anomaly_detection_model scoring_libs epoch_env numeric_table 0.05 new_analyzer)
                = Success r
          \<and> fst (train_anomaly_detection_model scoring_libs later_env numeric_table 0.05 new_analyzer)
                = Success r'
          \<and> flagged_rows (data_with_scores r) = [0]
          \<and> flagged_rows (data_with_scores r) = flagged_rows (data_with_scores r')
          \<and> data_with_scores r = data_with_scores r'
          \<and> anomaly_model_filename r \<noteq> anomaly_model_filename r')"
proof -
  have c: "respects_seed scoring_libs"
    by (simp add: respects_seed_def scoring_libs_def)
  have t: "\<not> has_text numeric_table"
    by code_simp
  have "case fst (train_anomaly_detection_model scoring_libs epoch_env numeric_table 0.05 new_analyzer) of
          Success x \<Rightarrow> flagged_rows (data_with_scores x) = [0]
              \<and> anomaly_model_filename x = ''models/anomaly_model_20231114_221320.joblib''
        | Fail m \<Rightarrow> False | Caught e \<Rightarrow> False"
    by code_simp
  then obtain r where
    r: "fst (train_anomaly_detection_model scoring_libs epoch_env numeric_table 0.05 new_analyzer) = Success r"
    and fr: "flagged_rows (data_with_scores r) = [0]"
    and nr: "anomaly_model_filename r = ''models/anomaly_model_20231114_221320.joblib''"
    by (cases "fst (train_anomaly_detection_model scoring_libs epoch_env numeric_table 0.05 new_analyzer)")
       simp_all
  have "case fst (train_anomaly_detection_model scoring_libs later_env numeric_table 0.05 new_analyzer) of
          Success x \<Rightarrow> anomaly_model_filename x = ''models/anomaly_model_20231114_231320.joblib''
        | Fail m \<Rightarrow> False | Caught e \<Rightarrow> False"
    by code_simp
  then obtain r' where
    r': "fst (train_anomaly_detection_model scoring_libs later_env numeric_table 0.05 new_analyzer) = Success r'"
    and nr': "anomaly_model_filename r' = ''models/anomaly_model_20231114_231320.joblib''"
    by (cases "fst (train_anomaly_detection_model scoring_libs later_env numeric_table 0.05 new_analyzer)")
       simp_all
  have d: "anomaly_model_filename r \<noteq> anomaly_model_filename r'"
    by (simp add: nr nr')
  from seeded_runs_flag_the_same_rows[OF c r r'] c t r r' fr d show ?thesis by blast
qed

subsection \<open>Frequencies of missing categories\<close>

text \<open>
  C9, as stated, fails: on \<open>unknown_table\<close> one row has no source country, and that row
  gets the frequency 2, since the row whose source country is the text \<^verbatim>\<open>unknown\<close> is
  counted with it. The same holds for the attack type.
\<close>

theorem literal_unknown_is_counted: "case fst (preprocess_data failing_libs unknown_table new_analyzer) of
   Inr data \<Rightarrow> get_col unknown_table ''source_country'' ! 0 = Missing
     \<and> count_list (get_col unknown_table ''source_country'') Missing = 1
     \<and> get_col data ''source_country_frequency'' ! 0 = Num 2
     \<and> get_col unknown_table ''attack_type'' ! 1 = Missing
     \<and> count_list (get_col unknown_table ''attack_type'') Missing = 1
     \<and> get_col data ''attack_type_frequency'' ! 1 = Num 2
  | Inl e \<Rightarrow> False"
  by code_simp

lemma get_col_convert_timestamp:
  "convert_timestamp L df = Inr d0 \<Longrightarrow> c \<noteq> ''timestamp'' \<Longrightarrow> get_col d0 c = get_col df c"
  by (auto simp: convert_timestamp_def get_col_set_col split: if_splits sum.splits)

lemma count_fillna:
  "v \<noteq> Missing \<Longrightarrow> count_list (fillna v s) v = count_list s Missing + count_list s v"
  by (induction s) (auto simp: fillna_def)

lemma frequency_of_filled:
  assumes "i < length s" and "s ! i = Missing"
  shows "map_series (value_counts (fillna (Str ''unknown'') s)) (fillna (Str ''unknown'') s) ! i
       = Num (of_nat (count_list s Missing + count_list s (Str ''unknown'')))"
proof -
  let ?f = "fillna (Str ''unknown'') s"
  have l: "i < length ?f" using assms(1) by (simp add: fillna_def)
  have v: "?f ! i = Str ''unknown''" using assms by (simp add: fillna_def)
  then have "Str ''unknown'' \<in> set ?f" using l by (metis nth_mem)
  then have "value_counts ?f (Str ''unknown'') = Some (count_list ?f (Str ''unknown''))"
    by (simp add: value_counts_def)
  then show ?thesis
    using l v by (simp add: map_series_def count_fillna)
qed

lemma engineer_categorical_column:
  assumes "engineer L df = Inr data" and "has_col c df"
    and nts: "c \<noteq> ''timestamp''"
    and nn: "c \<notin> set numerical_features"
    and nt: "c \<notin> {''hour_of_day'', ''day_of_week'', ''month'', ''year'', ''weekend''}"
    and cat: "c \<in> set categorical_features"
  obtains d where "get_col d c = fillna (Str ''unknown'') (get_col df c)"
    and "has_col c d"
    and "data = frequency_feature ''attack_type'' ''attack_type_frequency''
                  (frequency_feature ''source_country'' ''source_country_frequency'' d)"
proof -
  from assms(1) obtain d0 d1 where c0: "convert_timestamp L df = Inr d0"
    and f: "fill_numerical numerical_features
              (if has_col ''timestamp'' d0 then timestamp_features d0 else d0) = Inr d1"
    and d: "data = frequency_feature ''attack_type'' ''attack_type_frequency''
                  (frequency_feature ''source_country'' ''source_country_frequency''
                    (fill_categorical categorical_features d1))"
    by (rule engineer_stages)
  have g0: "get_col d0 c = get_col df c"
    using get_col_convert_timestamp[OF c0 nts] .
  have h0: "has_col c d0"
    using has_col_convert_timestamp[OF c0, of c] assms(2) by simp
  have "get_col d1 c = get_col (if has_col ''timestamp'' d0 then timestamp_features d0 else d0) c"
    using get_col_fill_numerical[OF f nn] .
  then have g1: "get_col d1 c = get_col d0 c"
    by (simp add: get_col_timestamp_features[OF nt])
  have "has_col c d1 = has_col c (if has_col ''timestamp'' d0 then timestamp_features d0 else d0)"
    using has_col_fill_numerical[OF f] .
  then have h1: "has_col c d1"
    using h0 by (simp add: has_col_timestamp_features)
  have "get_col (fill_categorical categorical_features d1) c = fillna (Str ''unknown'') (get_col df c)"
    using cat h1 by (simp add: get_col_fill_categorical g1 g0)
  moreover have "has_col c (fill_categorical categorical_features d1)"
    using h1 by (simp add: has_col_fill_categorical)
  ultimately show ?thesis using d that by blast
qed

lemma source_country_plain:
  "''source_country'' \<noteq> ''timestamp''"
  "''source_country'' \<notin> set numerical_features"
  "''source_country'' \<notin> {''hour_of_day'', ''day_of_week'', ''month'', ''year'', ''weekend''}"
  "''source_country'' \<in> set categorical_features"
  by (simp_all add: numerical_features_def categorical_features_def)

lemma attack_type_plain:
  "''attack_type'' \<noteq> ''timestamp''"
  "''attack_type'' \<notin> set numerical_features"
  "''attack_type'' \<notin> {''hour_of_day'', ''day_of_week'', ''month'', ''year'', ''weekend''}"
  "''attack_type'' \<in> set categorical_features"
  by (simp_all add: numerical_features_def categorical_features_def)

text \<open>
  C9, amended. Missing categorical values are filled before the frequencies are counted:
  whenever feature engineering succeeds, a row without source country gets as
  \<^verbatim>\<open>source_country_frequency\<close> the number of rows without source country plus the number
  of rows whose source country is the text \<^verbatim>\<open>unknown\<close>; the same for the attack type.
\<close>

theorem missing_category_frequency:
  assumes "engineer L df = Inr data"
  shows "(has_col ''source_country'' df \<and> i < length (get_col df ''source_country'')
           \<and> get_col df ''source_country'' ! i = Missing \<longrightarrow>
          get_col data ''source_country_frequency'' ! i
            = Num (of_nat (count_list (get_col df ''source_country'') Missing
                           + count_list (get_col df ''source_country'') (Str ''unknown''))))
       \<and> (has_col ''attack_type'' df \<and> j < length (get_col df ''attack_type'')
           \<and> get_col df ''attack_type'' ! j = Missing \<longrightarrow>
          get_col data ''attack_type_frequency'' ! j
            = Num (of_nat (count_list (get_col df ''attack_type'') Missing
                           + count_list (get_col df ''attack_type'') (Str ''unknown''))))"
proof (intro conjI impI)
  assume a: "has_col ''source_country'' df \<and> i < length (get_col df ''source_country'')
           \<and> get_col df ''source_country'' ! i = Missing"
  from a have h: "has_col ''source_country'' df" by simp
  from engineer_categorical_column[OF assms h source_country_plain] obtain d where
    g: "get_col d ''source_country'' = fillna (Str ''unknown'') (get_col df ''source_country'')"
    and hd: "has_col ''source_country'' d"
    and dd: "data = frequency_feature ''attack_type'' ''attack_type_frequency''
                  (frequency_feature ''source_country'' ''source_country_frequency'' d)"
    by blast
  have "get_col data ''source_country_frequency''
      = map_series (value_counts (get_col d ''source_country'')) (get_col d ''source_country'')"
    using hd by (simp add: dd get_col_frequency_feature)
  then show "get_col data ''source_country_frequency'' ! i
            = Num (of_nat (count_list (get_col df ''source_country'') Missing
                           + count_list (get_col df ''source_country'') (Str ''unknown'')))"
    using a by (simp add: g frequency_of_filled)
next
  assume a: "has_col ''attack_type'' df \<and> j < length (get_col df ''attack_type'')
           \<and> get_col df ''attack_type'' ! j = Missing"
  from a have h: "has_col ''attack_type'' df" by simp
  from engineer_categorical_column[OF assms h attack_type_plain] obtain d where
    g: "get_col d ''attack_type'' = fillna (Str ''unknown'') (get_col df ''attack_type'')"
    and hd: "has_col ''attack_type'' d"
    and dd: "data = frequency_feature ''attack_type'' ''attack_type_frequency''
                  (frequency_feature ''source_country'' ''source_country_frequency'' d)"
    by blast
  have "get_col data ''attack_type_frequency''
      = map_series (value_counts (get_col d ''attack_type'')) (get_col d ''attack_type'')"
    using hd by (simp add: dd get_col_frequency_feature has_col_frequency_feature)
  then show "get_col data ''attack_type_frequency'' ! j
            = Num (of_nat (count_list (get_col df ''attack_type'') Missing
                           + count_list (get_col df ''attack_type'') (Str ''unknown'')))"
    using a by (simp add: g frequency_of_filled)
qed

theorem missing_category_frequency_witness:
  "\<exists>data. engineer failing_libs unknown_table = Inr data
     \<and> has_col ''source_country'' unknown_table
     \<and> 0 < length (get_col unknown_table ''source_country'')
     \<and> get_col unknown_table ''source_country'' ! 0 = Missing
     \<and> get_col data ''source_country_frequency'' ! 0
           = Num (of_nat (count_list (get_col unknown_table ''source_country'') Missing
                          + count_list (get_col unknown_table ''source_country'') (Str ''unknown'')))
     \<and> has_col ''attack_type'' unknown_table
     \<and> 1 < length (get_col unknown_table ''attack_type'')
     \<and> get_col unknown_table ''attack_type'' ! 1 = Missing
     \<and> get_col data ''attack_type_frequency'' ! 1
           = Num (of_nat (count_list (get_col unknown_table ''attack_type'') Missing
                          + count_list (get_col unknown_table ''attack_type'') (Str ''unknown'')))"
proof -
  have "case engineer failing_libs unknown_table of Inr d \<Rightarrow> True | Inl e \<Rightarrow> False"
    by code_simp
  then obtain data where e: "engineer failing_libs unknown_table = Inr data"
    by (cases "engineer failing_libs unknown_table") simp_all
  have s: "has_col ''source_country'' unknown_table
     \<and> 0 < length (get_col unknown_table ''source_country'')
     \<and> get_col unknown_table ''source_country'' ! 0 = Missing"
    by code_simp
  have t: "has_col ''attack_type'' unknown_table
     \<and> 1 < length (get_col unknown_table ''attack_type'')
     \<and> get_col unknown_table ''attack_type'' ! 1 = Missing"
    by code_simp
  from missing_category_frequency[OF e, of 0 1] e s t show ?thesis by blast
qed

subsection \<open>Campaigns: size, span and order\<close>


















subsection \<open>The orchestrator and the feature engineering\<close>

lemma prediction_unfold:
  "\<not> df_empty df \<Longrightarrow> train_target_prediction_model L E df a =
     (case engineer L df of
        Inl e \<Rightarrow> (Caught e, a\<lparr>preprocess_calls := Suc (preprocess_calls a)\<rparr>)
      | Inr data \<Rightarrow> prediction_fit L E data
          (a\<lparr>preprocess_calls := Suc (preprocess_calls a), features := columns data\<rparr>))"
  by (simp add: train_target_prediction_model_def preprocess_data_nonempty split: sum.splits)

lemma temporal_unfold:
  "\<not> df_empty df \<Longrightarrow> analyze_temporal_patterns L df a =
     (case engineer L df of
        Inl e \<Rightarrow> (Caught e, a\<lparr>preprocess_calls := Suc (preprocess_calls a)\<rparr>)
      | Inr data \<Rightarrow> (temporal_analysis L data,
          a\<lparr>preprocess_calls := Suc (preprocess_calls a), features := columns data\<rparr>))"
  by (simp add: analyze_temporal_patterns_def preprocess_data_nonempty split: sum.splits)

lemma campaign_unfold_state:
  "\<not> df_empty df \<Longrightarrow> identify_attack_campaign L df limit m a =
     (case engineer L df of
        Inl e \<Rightarrow> (Caught e, a\<lparr>preprocess_calls := Suc (preprocess_calls a)\<rparr>)
      | Inr data \<Rightarrow> (campaign_analysis L data limit m,
          a\<lparr>preprocess_calls := Suc (preprocess_calls a), features := columns data\<rparr>))"
  by (simp add: identify_attack_campaign_def preprocess_data_nonempty split: sum.splits)

lemma clustering_fit_state:
  "fst (clustering_fit L E data a) = fst (clustering_fit L E data a')"
  "preprocess_calls (snd (clustering_fit L E data a)) = preprocess_calls a"
  by (simp_all add: clustering_fit_def Let_def split: sum.split prod.split option.split)

lemma anomaly_fit_state:
  "fst (anomaly_fit L E data c a) = fst (anomaly_fit L E data c a')"
  "preprocess_calls (snd (anomaly_fit L E data c a)) = preprocess_calls a"
  by (simp_all add: anomaly_fit_def Let_def split: sum.split prod.split option.split)

lemma prediction_fit_state:
  "fst (prediction_fit L E data a) = fst (prediction_fit L E data a')"
  "preprocess_calls (snd (prediction_fit L E data a)) = preprocess_calls a"
  by (simp_all add: prediction_fit_def Let_def split: sum.split prod.split option.split)

text \<open>
  C8, as stated, fails: the orchestrator hands the raw table to the five operations, and
  each of them runs the feature engineering. On \<open>burst_table\<close> it runs five times.
\<close>

theorem feature_engineering_runs_five_times: "\<not> df_empty burst_table
  \<and> preprocess_calls (snd (run_components failing_libs (\<lambda>i. epoch_env) burst_table None)) = 5"
  by code_simp

lemma calls_after:
  assumes "\<not> df_empty df"
  shows "preprocess_calls (snd (train_clustering_model L E df a)) = Suc (preprocess_calls a)"
    and "preprocess_calls (snd (train_anomaly_detection_model L E df c a)) = Suc (preprocess_calls a)"
    and "preprocess_calls (snd (train_target_prediction_model L E df a)) = Suc (preprocess_calls a)"
    and "preprocess_calls (snd (analyze_temporal_patterns L df a)) = Suc (preprocess_calls a)"
    and "preprocess_calls (snd (identify_attack_campaign L df limit m a)) = Suc (preprocess_calls a)"
  using assms
  by (simp_all add: clustering_unfold anomaly_unfold prediction_unfold temporal_unfold
      campaign_unfold_state clustering_fit_state(2) anomaly_fit_state(2) prediction_fit_state(2)
      split: sum.split)

lemma run_components_calls:
  assumes "\<not> df_empty df"
  shows "preprocess_calls (snd (run_components L E df tf)) = 5"
  by (simp add: run_components_def case_prod_beta calls_after[OF assms] new_analyzer_def)

lemma run_components_shared:
  assumes "\<not> df_empty df" and e: "engineer L df = Inr data"
  shows "\<exists>a. run_shared L E df tf = Inr (fst (run_components L E df tf), a)
            \<and> preprocess_calls a = 1"
proof -
  define a0 where "a0 = new_analyzer\<lparr>preprocess_calls := Suc (preprocess_calls new_analyzer),
                                      features := columns data\<rparr>"
  have p: "preprocess_data L df new_analyzer = (Inr data, a0)"
    using assms by (simp add: preprocess_data_nonempty a0_def)
  define s1 where "s1 = clustering_fit L (E 0) data a0"
  define s2 where "s2 = anomaly_fit L (E 1) data 0.05 (snd s1)"
  define s3 where "s3 = prediction_fit L (E 2) data (snd s2)"
  have sh: "run_shared L E df tf =
      Inr (\<lparr>data_size = nrows df, timeframe = tf,
             clustering_results = fst s1, anomaly_results = fst s2, prediction_results = fst s3,
             temporal_results = temporal_analysis L data,
             campaign_results = campaign_analysis L data 30 5,
             timestamp = strftime_date (now (E 3)) @ '' '' @ strftime_clock (now (E 3))\<rparr>,
           snd s3)"
    by (simp add: run_shared_def p case_prod_beta s1_def s2_def s3_def)
  define t1 where "t1 = train_clustering_model L (E 0) df new_analyzer"
  define t2 where "t2 = train_anomaly_detection_model L (E 1) df 0.05 (snd t1)"
  define t3 where "t3 = train_target_prediction_model L (E 2) df (snd t2)"
  define t4 where "t4 = analyze_temporal_patterns L df (snd t3)"
  define t5 where "t5 = identify_attack_campaign L df 30 5 (snd t4)"
  have rc: "fst (run_components L E df tf) =
      \<lparr>data_size = nrows df, timeframe = tf,
       clustering_results = fst t1, anomaly_results = fst t2, prediction_results = fst t3,
       temporal_results = fst t4, campaign_results = fst t5,
       timestamp = strftime_date (now (E 3)) @ '' '' @ strftime_clock (now (E 3))\<rparr>"
    by (simp add: run_components_def case_prod_beta t1_def t2_def t3_def t4_def t5_def)
  have e1: "fst t1 = fst s1"
    using assms by (simp add: t1_def s1_def clustering_unfold a0_def)
  have "fst t2 = fst (anomaly_fit L (E 1) data 0.05
           ((snd t1)\<lparr>preprocess_calls := Suc (preprocess_calls (snd t1)), features := columns data\<rparr>))"
    using assms by (simp add: t2_def anomaly_unfold)
  then have e2: "fst t2 = fst s2"
    unfolding s2_def using anomaly_fit_state(1) by simp
  have "fst t3 = fst (prediction_fit L (E 2) data
           ((snd t2)\<lparr>preprocess_calls := Suc (preprocess_calls (snd t2)), features := columns data\<rparr>))"
    using assms by (simp add: t3_def prediction_unfold)
  then have e3: "fst t3 = fst s3"
    unfolding s3_def using prediction_fit_state(1) by simp
  have e4: "fst t4 = temporal_analysis L data"
    using assms by (simp add: t4_def temporal_unfold)
  have e5: "fst t5 = campaign_analysis L data 30 5"
    using assms by (simp add: t5_def campaign_unfold_state)
  have c: "preprocess_calls (snd s3) = 1"
    by (simp add: s3_def s2_def s1_def prediction_fit_state(2) anomaly_fit_state(2)
        clustering_fit_state(2) a0_def new_analyzer_def)
  show ?thesis
    using sh rc e1 e2 e3 e4 e5 c by simp
qed

text \<open>
  C8, amended. On every table that is not empty the orchestrator runs the feature
  engineering five times, once in each operation, on the raw table. Where the feature
  engineering succeeds, the dictionary it returns is the one that a single run of the
  feature engineering, with the engineered table handed to the five components, gives.
\<close>

theorem orchestrator_engineers_per_component:
  assumes "\<not> df_empty df"
  shows "preprocess_calls (snd (run_components L E df tf)) = 5
       \<and> train_models_on_attack_data L E (Inr df) tf = Success (fst (run_components L E df tf))
       \<and> (\<forall>data. engineer L df = Inr data \<longrightarrow>
            (\<exists>a. run_shared L E df tf = Inr (fst (run_components L E df tf), a)
                 \<and> preprocess_calls a = 1))"
  using run_components_calls[OF assms] run_components_shared[OF assms] assms
  by (simp add: train_models_on_attack_data_def)

theorem orchestrator_engineers_per_component_witness:
  "\<not> df_empty burst_table
   \<and> (\<exists>data. engineer failing_libs burst_table = Inr data)
   \<and> preprocess_calls (snd (run_components failing_libs (\<lambda>i. epoch_env) burst_table None)) = 5
   \<and> (\<exists>a. run_shared failing_libs (\<lambda>i. epoch_env) burst_table None
             = Inr (fst (run_components failing_libs (\<lambda>i. epoch_env) burst_table None), a)
          \<and> preprocess_calls a = 1)"
proof -
  have n: "\<not> df_empty burst_table" by code_simp
  have "case engineer failing_libs burst_table of Inr d \<Rightarrow> True | Inl e \<Rightarrow> False"
    by code_simp
  then obtain data where e: "engineer failing_libs burst_table = Inr data"
    by (cases "engineer failing_libs burst_table") simp_all
  from orchestrator_engineers_per_component[OF n, of failing_libs "\<lambda>i. epoch_env" None] n e show ?thesis by blast
qed

subsection \<open>The transform of a comb of events\<close>

lemma sum_16: "(\<Sum>n<(16::nat). F n) = F 0 + F 1 + F 2 + F 3 + F 4 + F 5 + F 6 + F 7 + F 8 + F 9 + F 10
    + F 11 + F 12 + F 13 + F 14 + (F 15 :: complex)"
  by (simp add: eval_nat_numeral)

lemma sum_8: "(\<Sum>n<(8::nat). F n) = F 0 + F 1 + F 2 + F 3 + F 4 + F 5 + F 6 + (F 7 :: complex)"
  by (simp add: eval_nat_numeral)

lemma sum_4: "(\<Sum>n<(4::nat). F n) = F 0 + F 1 + F 2 + (F 3 :: complex)"
  by (simp add: eval_nat_numeral)

lemma dft_comb:
  "(\<Sum>n<length comb_counts. of_nat (comb_counts ! n)
        * cis (- 2 * pi * real k * real n / real (length comb_counts)))
   = (\<Sum>m<4. (cis (- 2 * pi * real k / 16) ^ 4) ^ m)
     + 6 * cis (- 2 * pi * real k / 16) * (\<Sum>m<8. (cis (- 2 * pi * real k / 16) ^ 2) ^ m)"
proof -
  define w where "w = cis (- 2 * pi * real k / 16)"
  have p: "cis (- 2 * pi * real k * real n / 16) = w ^ n" for n
    by (simp add: w_def DeMoivre mult_ac)
  have l: "length comb_counts = 16"
    by (simp add: comb_counts_def)
  have "(\<Sum>n<16. of_nat (comb_counts ! n) * w ^ n)
      = (\<Sum>m<4. (w ^ 4) ^ m) + 6 * w * (\<Sum>m<8. (w ^ 2) ^ m)"
    unfolding sum_16 sum_8 sum_4
    by (simp add: comb_counts_def) algebra
  moreover have "(\<Sum>n<length comb_counts. of_nat (comb_counts ! n)
        * cis (- 2 * pi * real k * real n / real (length comb_counts)))
      = (\<Sum>n<16. of_nat (comb_counts ! n) * w ^ n)"
    by (simp only: l of_nat_numeral p)
  ultimately show ?thesis
    by (simp only: w_def)
qed

lemma cis_root_sum:
  assumes "0 < N" and "\<not> N dvd k"
  shows "(\<Sum>m<N. cis (- 2 * pi * real k / real N) ^ m) = 0"
proof -
  define z where "z = cis (- 2 * pi * real k / real N)"
  have ne: "z \<noteq> 1"
  proof
    assume "z = 1"
    then have "cos (- 2 * pi * real k / real N) = 1"
      by (simp add: z_def complex_eq_iff)
    then have "\<exists>n::int. - 2 * pi * real k / real N = of_int n * 2 * pi"
      by (simp only: cos_one_2pi_int)
    then obtain n :: int where n: "- 2 * pi * real k / real N = of_int n * 2 * pi"
      by blast
    have "pi * (- real k - real N * real_of_int n) = 0"
      using n assms(1) by (simp add: field_simps)
    then have "- real k - real N * real_of_int n = 0"
      using pi_neq_zero mult_eq_0_iff[of pi "- real k - real N * real_of_int n"] by blast
    then have "real_of_int (- int k) = real_of_int (int N * n)"
      by simp
    then have "- int k = int N * n"
      by (simp only: of_int_eq_iff)
    then have "int N dvd int k"
      by (metis dvd_minus_iff dvd_triv_left)
    then have "N dvd k"
      by (simp only: int_dvd_int_iff)
    with assms(2) show False by simp
  qed
  have "z ^ N = cis (real N * (- 2 * pi * real k / real N))"
    by (simp only: z_def DeMoivre)
  also have "\<dots> = cis (2 * pi * of_int (- int k))"
    by (rule arg_cong[where f = cis]) (use assms(1) in simp)
  also have "\<dots> = 1"
    by (rule cis_multiple_2pi) simp
  finally have one: "z ^ N = 1" .
  have "(\<Sum>m<N. z ^ m) = (z ^ N - 1) / (z - 1)"
    using ne by (rule geometric_sum)
  then have "(\<Sum>m<N. z ^ m) = 0"
    by (simp only: one) simp
  then show ?thesis
    unfolding z_def .
qed

lemma eighth_sum:
  assumes "\<not> 8 dvd k"
  shows "(\<Sum>m<8. (cis (- 2 * pi * real k / 16) ^ 2) ^ m) = 0"
proof -
  have "cis (- 2 * pi * real k / 16) ^ 2 = cis (real 2 * (- 2 * pi * real k / 16))"
    by (simp only: DeMoivre)
  also have "\<dots> = cis (- 2 * pi * real k / real 8)"
    by (rule arg_cong[where f = cis]) simp
  finally have "cis (- 2 * pi * real k / 16) ^ 2 = cis (- 2 * pi * real k / real 8)" .
  then show ?thesis
    using cis_root_sum[of 8 k] assms by simp
qed

lemma quarter_sum:
  assumes "\<not> 4 dvd k"
  shows "(\<Sum>m<4. (cis (- 2 * pi * real k / 16) ^ 4) ^ m) = 0"
proof -
  have "cis (- 2 * pi * real k / 16) ^ 4 = cis (real 4 * (- 2 * pi * real k / 16))"
    by (simp only: DeMoivre)
  also have "\<dots> = cis (- 2 * pi * real k / real 4)"
    by (rule arg_cong[where f = cis]) simp
  finally have "cis (- 2 * pi * real k / 16) ^ 4 = cis (- 2 * pi * real k / real 4)" .
  then show ?thesis
    using cis_root_sum[of 4 k] assms by simp
qed

lemma dft_comb_low:
  assumes "0 < k" and "k < 8" and "k \<noteq> 4"
  shows "dft_abs comb_counts k = 0"
proof -
  have "\<not> 8 dvd k" using assms by presburger
  from eighth_sum[OF this]
  have e: "(\<Sum>m<8. (cis (- 2 * pi * real k / 16) ^ 2) ^ m) = 0" .
  have "\<not> 4 dvd k" using assms by presburger
  from quarter_sum[OF this]
  have q: "(\<Sum>m<4. (cis (- 2 * pi * real k / 16) ^ 4) ^ m) = 0" .
  have "(\<Sum>n<length comb_counts. of_nat (comb_counts ! n)
        * cis (- 2 * pi * real k * real n / real (length comb_counts))) = 0"
    by (simp only: dft_comb e q) simp
  then show ?thesis
    by (simp only: dft_abs_def) simp
qed

lemma dft_comb_4: "dft_abs comb_counts 4 = 4"
proof -
  have "cis (- 2 * pi * real 4 / 16) ^ 4 = cis (real 4 * (- 2 * pi * real 4 / 16))"
    by (simp only: DeMoivre)
  also have "\<dots> = cis (2 * pi * of_int (- 1))"
    by (rule arg_cong[where f = cis]) simp
  also have "\<dots> = 1"
    by (rule cis_multiple_2pi) simp
  finally have w4: "cis (- 2 * pi * real 4 / 16) ^ 4 = 1" .
  have "\<not> 8 dvd (4::nat)" by presburger
  from eighth_sum[OF this]
  have "(\<Sum>n<length comb_counts. of_nat (comb_counts ! n)
        * cis (- 2 * pi * real 4 * real n / real (length comb_counts))) = 4"
    by (simp only: dft_comb w4) simp
  then show ?thesis
    by (simp only: dft_abs_def) simp
qed

lemma dft_comb_8: "dft_abs comb_counts 8 = 44"
proof -
  have w: "cis (- 2 * pi * real 8 / 16) = - 1"
  proof -
    have "cis (- 2 * pi * real 8 / 16) = cis (- pi)" by simp
    also have "\<dots> = inverse (cis pi)" by (simp only: cis_inverse)
    also have "\<dots> = - 1" by simp
    finally show ?thesis .
  qed
  have "(\<Sum>m<(8::nat). ((- 1 :: complex) ^ 2) ^ m) = 8"
    by simp
  moreover have "(\<Sum>m<(4::nat). ((- 1 :: complex) ^ 4) ^ m) = 4"
    by simp
  ultimately have "(\<Sum>n<length comb_counts. of_nat (comb_counts ! n)
        * cis (- 2 * pi * real 8 * real n / real (length comb_counts))) = - 44"
    by (simp only: dft_comb w) simp
  then show ?thesis
    by (simp only: dft_abs_def) simp
qed

subsection \<open>Periodic patterns\<close>

lemma engineer_fft: "engineer (L\<lparr>fft_abs := f\<rparr>) df = engineer L df"
  by (simp add: engineer_def convert_timestamp_def to_datetime_def)

lemma to_datetime_fft: "to_datetime (L\<lparr>fft_abs := f\<rparr>) s = to_datetime L s"
  by (simp add: to_datetime_def)

lemma dominant_periods_cong:
  assumes "\<And>i. 1 \<le> i \<Longrightarrow> i < length counts div 2 \<Longrightarrow> fft_abs L counts i = fft_abs L' counts i"
  shows "dominant_periods L counts = dominant_periods L' counts"
proof -
  have m: "map (fft_abs L counts) [1..<length counts div 2]
         = map (fft_abs L' counts) [1..<length counts div 2]"
    using assms by simp
  show ?thesis
    unfolding dominant_periods_def Let_def m
    by (rule arg_cong[where f = concat], rule map_cong) (simp_all add: assms)
qed

lemma top_periods_cong:
  assumes "dominant_periods L (daily_counts ts) = dominant_periods L' (daily_counts ts)"
  shows "top_periods L ts = top_periods L' ts"
proof (cases "shift_instant (minimum ts) (14 * day_seconds)")
  case (Inl e)
  then show ?thesis by (simp add: top_periods_def)
next
  case (Inr shifted)
  show ?thesis
  proof (cases shifted)
    case None
    with Inr show ?thesis by (simp add: top_periods_def)
  next
    case (Some lo14)
    with Inr assms show ?thesis
      by (cases "maximum ts") (simp_all add: top_periods_def)
  qed
qed

lemma temporal_analysis_fft:
  assumes "\<And>col. to_datetime L (get_col data ''timestamp'') = Inr col \<Longrightarrow>
             top_periods (L\<lparr>fft_abs := f\<rparr>) (instants col)
           = top_periods (L\<lparr>fft_abs := g\<rparr>) (instants col)"
  shows "temporal_analysis (L\<lparr>fft_abs := f\<rparr>) data = temporal_analysis (L\<lparr>fft_abs := g\<rparr>) data"
proof (cases "to_datetime L (get_col data ''timestamp'')")
  case (Inl e)
  then show ?thesis by (simp add: temporal_analysis_def to_datetime_fft)
next
  case (Inr col)
  show ?thesis
  proof (cases "peak_times col")
    case (Inl e)
    with Inr show ?thesis by (simp add: temporal_analysis_def to_datetime_fft)
  next
    case pk: (Inr p)
    obtain hourly daily monthly h dn mn where p: "p = (hourly, daily, monthly, h, dn, mn)"
      by (cases p)
    show ?thesis
    proof (cases "top_periods (L\<lparr>fft_abs := g\<rparr>) (instants col)")
      case (Inl e)
      with assms[OF Inr] Inr pk p show ?thesis
        by (simp add: temporal_analysis_def to_datetime_fft)
    next
      case tops: (Inr tops)
      with assms[OF Inr] Inr pk p show ?thesis
        by (simp add: temporal_analysis_def to_datetime_fft)
    qed
  qed
qed

end
